theory Spec2Isabelle
  imports Main "HOL-Library.Word"
begin

section \<open>JavaScript strings\<close>

text \<open>
  Identifiers, MIME types, file names and storage keys are modelled as HOL strings.
  Decoded file content is a list of UTF-16 code units, each a natural number, because
  the whitespace class of a JavaScript regular expression reaches beyond ASCII.
\<close>

type_synonym jsstring = "nat list"

text \<open>\<^verbatim>\<open>s.split(sep)\<close> for a one-character separator: the pieces between
  the occurrences of the separator. The result is never empty; the empty string gives
  one empty piece.\<close>

fun split_char :: "'a \<Rightarrow> 'a list \<Rightarrow> 'a list list" where
  "split_char d [] = [[]]"
| "split_char d (c # cs) =
     (if c = d then [] # split_char d cs
      else (case split_char d cs of
              [] \<Rightarrow> [[c]]
            | s # ss \<Rightarrow> (c # s) # ss))"

text \<open>\<^verbatim>\<open>arr[i]\<close>: \<open>None\<close> stands for \<^verbatim>\<open>undefined\<close> past the end.\<close>

fun nth_opt :: "'a list \<Rightarrow> nat \<Rightarrow> 'a option" where
  "nth_opt [] n = None"
| "nth_opt (x # xs) 0 = Some x"
| "nth_opt (x # xs) (Suc n) = nth_opt xs n"

text \<open>The whitespace class \<^verbatim>\<open>\s\<close> of ECMAScript, by code unit: tab, line feed,
  vertical tab, form feed, carriage return, space, no-break space, the Unicode space
  separators, the line and paragraph separators and the byte order mark.\<close>

definition is_space :: "nat \<Rightarrow> bool" where
  "is_space c =
     (c = 9 \<or> c = 10 \<or> c = 11 \<or> c = 12 \<or> c = 13 \<or> c = 32 \<or> c = 160 \<or> c = 5760
      \<or> (8192 \<le> c \<and> c \<le> 8202) \<or> c = 8232 \<or> c = 8233 \<or> c = 8239 \<or> c = 8287
      \<or> c = 12288 \<or> c = 65279)"

text \<open>\<^verbatim>\<open>s.split(/\s+/)\<close>: the pieces between the maximal runs of whitespace.
  A run at the very start leaves an empty first piece, a run at the very end an empty
  last piece, and the empty string gives one empty piece. \<open>acc\<close> holds the piece
  being read, reversed.\<close>

function split_ws_from :: "jsstring \<Rightarrow> jsstring \<Rightarrow> jsstring list" where
  "split_ws_from acc [] = [rev acc]"
| "split_ws_from acc (c # cs) =
     (if is_space c then rev acc # split_ws_from [] (dropWhile is_space cs)
      else split_ws_from (c # acc) cs)"
  by pat_completeness auto
termination
  by (relation "measure (\<lambda>(acc, s). length s)")
     (auto simp: length_dropWhile_le less_Suc_eq_le)

definition split_ws :: "jsstring \<Rightarrow> jsstring list" where
  "split_ws s = split_ws_from [] s"

section \<open>Dates\<close>

text \<open>A \<^verbatim>\<open>Date\<close> by its UTC fields; \<^verbatim>\<open>toISOString\<close> prints
  \<^verbatim>\<open>YYYY-MM-DDTHH:mm:ss.sssZ\<close>, and a year past 9999 in the expanded form
  with a sign and six digits.\<close>

record js_date =
  year :: nat
  month :: nat
  day :: nat
  hours :: nat
  minutes :: nat
  seconds :: nat
  millis :: nat

definition digit_char :: "nat \<Rightarrow> char" where
  "digit_char n = ''0123456789'' ! (n mod 10)"

fun pad :: "nat \<Rightarrow> nat \<Rightarrow> string" where
  "pad 0 n = []"
| "pad (Suc k) n = pad k (n div 10) @ [digit_char n]"

definition iso_date :: "js_date \<Rightarrow> string" where
  "iso_date d =
     (if year d \<le> 9999 then pad 4 (year d) else CHR ''+'' # pad 6 (year d))
     @ ''-'' @ pad 2 (month d) @ ''-'' @ pad 2 (day d)"

definition toISOString :: "js_date \<Rightarrow> string" where
  "toISOString d =
     iso_date d @ ''T'' @ pad 2 (hours d) @ '':'' @ pad 2 (minutes d) @ '':''
     @ pad 2 (seconds d) @ ''.'' @ pad 3 (millis d) @ ''Z''"

section \<open>utils/fileUtils.ts and utils/validation.ts\<close>

text \<open>\<^verbatim>\<open>generateS3Key\<close>: the date is the part of the ISO timestamp before
  the first \<^verbatim>\<open>T\<close>; \<open>now\<close> is the clock reading of \<^verbatim>\<open>new Date()\<close>.\<close>

definition generateS3Key :: "js_date \<Rightarrow> string \<Rightarrow> string \<Rightarrow> string" where
  "generateS3Key now filename fileId =
     (let timestamp = hd (split_char CHR ''T'' (toISOString now))
      in ''uploads/'' @ timestamp @ ''/'' @ fileId @ ''/'' @ filename)"

definition allowedTypes :: "string list" where
  "allowedTypes =
     [''application/pdf'', ''image/jpeg'', ''image/png'', ''image/gif'', ''image/webp'',
      ''text/plain'', ''application/msword'',
      ''application/vnd.openxmlformats-officedocument.wordprocessingml.document'']"

definition validateFileType :: "string \<Rightarrow> bool" where
  "validateFileType mimeType = (mimeType \<in> set allowedTypes)"

definition defaultMaxSize :: nat where
  "defaultMaxSize = 50 * 1024 * 1024"

definition validateFileSize :: "nat \<Rightarrow> nat \<Rightarrow> bool" where
  "validateFileSize sz maxSize = (sz \<le> maxSize)"

text \<open>\<^verbatim>\<open>sanitizeFilename\<close>: every character outside
  \<^verbatim>\<open>[a-zA-Z0-9.-]\<close> becomes an underscore, runs of underscores collapse to one,
  then one leading and one trailing underscore are removed.\<close>

definition safe_char :: "char \<Rightarrow> bool" where
  "safe_char c =
     (c \<in> set ''abcdefghijklmnopqrstuvwxyzABCDEFGHIJKLMNOPQRSTUVWXYZ0123456789.-'')"

function collapse_underscores :: "string \<Rightarrow> string" where
  "collapse_underscores [] = []"
| "collapse_underscores (c # cs) =
     (if c = CHR ''_'' then c # collapse_underscores (dropWhile (\<lambda>x. x = CHR ''_'') cs)
      else c # collapse_underscores cs)"
  by pat_completeness auto
termination
  by (relation "measure length") (auto simp: length_dropWhile_le less_Suc_eq_le)

definition strip_ends :: "string \<Rightarrow> string" where
  "strip_ends s =
     (let t = (case s of [] \<Rightarrow> [] | c # cs \<Rightarrow> if c = CHR ''_'' then cs else s)
      in if t \<noteq> [] \<and> last t = CHR ''_'' then butlast t else t)"

definition sanitizeFilename :: "string \<Rightarrow> string" where
  "sanitizeFilename filename =
     strip_ends (collapse_underscores
       (map (\<lambda>c. if safe_char c then c else CHR ''_'') filename))"

text \<open>The identifier syntax \<^verbatim>\<open>getMetadata\<close> tests, anchored at both ends and
  case-insensitive: 8-4-4-4-12 hexadecimal digits, the third group starting with a
  version digit 1 to 5 and the fourth with a variant digit 8, 9, a or b.\<close>

definition hex_char :: "char \<Rightarrow> bool" where
  "hex_char c = (c \<in> set ''0123456789abcdefABCDEF'')"

definition is_uuid :: "string \<Rightarrow> bool" where
  "is_uuid s =
     (length s = 36
      \<and> list_all hex_char (take 8 s)
      \<and> s ! 8 = CHR ''-''
      \<and> list_all hex_char (take 4 (drop 9 s))
      \<and> s ! 13 = CHR ''-''
      \<and> s ! 14 \<in> set ''12345''
      \<and> list_all hex_char (take 3 (drop 15 s))
      \<and> s ! 18 = CHR ''-''
      \<and> s ! 19 \<in> set ''89abAB''
      \<and> list_all hex_char (take 3 (drop 20 s))
      \<and> s ! 23 = CHR ''-''
      \<and> list_all hex_char (take 12 (drop 24 s)))"

text \<open>The canonical textual form of a unique identifier, as the specification names
  it: five groups of 8, 4, 4, 4 and 12 hexadecimal digits separated by hyphens, with
  no condition on the version or the variant digit.\<close>

definition canonical_uuid :: "string \<Rightarrow> bool" where
  "canonical_uuid s =
     (length s = 36
      \<and> list_all hex_char (take 8 s)
      \<and> s ! 8 = CHR ''-''
      \<and> list_all hex_char (take 4 (drop 9 s))
      \<and> s ! 13 = CHR ''-''
      \<and> list_all hex_char (take 4 (drop 14 s))
      \<and> s ! 18 = CHR ''-''
      \<and> list_all hex_char (take 4 (drop 19 s))
      \<and> s ! 23 = CHR ''-''
      \<and> list_all hex_char (take 12 (drop 24 s)))"

section \<open>Data model (types/index.ts)\<close>

type_synonym buffer = "8 word list"

text \<open>A value \<^verbatim>\<open>JSON.parse\<close> returns. An object keeps its members in the order
  read; a member read twice has its last value.\<close>

datatype json =
    JNull
  | JBool bool
  | JNumber int
  | JString string
  | JArray "json list"
  | JObject "(string \<times> json) list"

datatype FileStatus = UPLOADING | UPLOADED | PROCESSING | PROCESSED | ERROR

record exif_data =
  density :: "nat option"
  hasProfile :: "bool option"
  hasAlpha :: "bool option"

record text_analysis =
  lines :: nat
  words :: nat
  characters :: nat

record ExtractedMetadata =
  fileType :: string
  fileSize :: nat
  pages :: "nat option"
  dimensions :: "(nat \<times> nat) option"
  textContent :: "jsstring option"
  createdDate :: "string option"
  modifiedDate :: "string option"
  encoding :: "string option"
  exifData :: "exif_data option"
  textAnalysis :: "text_analysis option"
  extractionError :: "string option"

record FileMetadata =
  id_m :: string
  originalName :: string
  fileName :: string
  mimeType :: string
  size_m :: nat
  s3Key :: string
  s3Bucket :: string
  uploadedAt :: string
  userMetadata :: json
  extractedMetadata :: "ExtractedMetadata option"
  status :: FileStatus

text \<open>The fields of \<^verbatim>\<open>Partial<FileMetadata>\<close> that the callers of
  \<^verbatim>\<open>updateMetadata\<close> set.\<close>

record updates =
  upd_extractedMetadata :: "ExtractedMetadata option"
  upd_status :: "FileStatus option"

section \<open>The two stores and the environment\<close>

text \<open>An object of the bucket, and the calls the services send to the object store and
  to the table. The world holds both stores and the calls sent so far, oldest first; a
  call is recorded when it is sent, whether or not it succeeds.\<close>

record s3_object =
  Body :: buffer
  ContentType :: string
  Metadata :: "(string \<times> json) list"

datatype call =
    PutObject string string
  | GetObject string string
  | DeleteObject string string
  | SignUrl string string nat
  | PutItem FileMetadata
  | GetItem string
  | UpdateItem string updates
  | DeleteItem string

record world =
  s3 :: "string \<times> string \<rightharpoonup> s3_object"
  db :: "string \<rightharpoonup> FileMetadata"
  trace :: "call list"

text \<open>What the libraries return: the document of a PDF and the header of an image.\<close>

record pdf_info =
  CreationDate :: "string option"
  ModDate :: "string option"

record pdf_data =
  numpages :: nat
  pdf_text :: jsstring
  pdf_info :: "pdf_info option"

record image_data =
  img_width :: "nat option"
  img_height :: "nat option"
  img_format :: "string option"
  img_exif :: "buffer option"
  img_density :: "nat option"
  img_hasProfile :: "bool option"
  img_hasAlpha :: "bool option"

text \<open>Everything the code takes from outside: whether a call to a store fails (with the
  client's message), the JSON parser (\<open>None\<close> when it throws a syntax error), the PDF
  and image libraries (\<open>Inl\<close> the message of what they throw), the UTF-8 decoder of
  \<^verbatim>\<open>Buffer.toString\<close>, \<^verbatim>\<open>decodeURIComponent\<close> (\<open>None\<close> when it throws),
  the URL signer and the configured bucket.\<close>

record env =
  fails :: "call \<Rightarrow> string option"
  JSON_parse :: "string \<Rightarrow> json option"
  pdfParse :: "buffer \<Rightarrow> string + pdf_data"
  sharp_metadata :: "buffer \<Rightarrow> string + image_data"
  utf8_decode :: "buffer \<Rightarrow> jsstring"
  decodeURIComponent :: "string \<Rightarrow> string option"
  getSignedUrl :: "string \<Rightarrow> string \<Rightarrow> nat \<Rightarrow> string"
  bucketName :: string

text \<open>The values one upload draws: the identifier of \<^verbatim>\<open>uuidv4()\<close> and the three
  readings of the clock (for the key, for \<^verbatim>\<open>uploadedAt\<close>, and the default
  inside \<^verbatim>\<open>saveMetadata\<close>).\<close>

record ambient =
  uuid :: string
  t_key :: js_date
  t_record :: js_date
  t_save :: js_date

definition sent :: "call \<Rightarrow> world \<Rightarrow> world" where
  "sent c w = w\<lparr>trace := trace w @ [c]\<rparr>"

section \<open>services/s3Service.ts\<close>

definition S3_uploadFile ::
  "env \<Rightarrow> string \<Rightarrow> buffer \<Rightarrow> string \<Rightarrow> (string \<times> json) list \<Rightarrow> world
   \<Rightarrow> (string + string \<times> string) \<times> world" where
  "S3_uploadFile e key fileBuffer mime meta w =
     (let c = PutObject (bucketName e) key; w1 = sent c w in
      case fails e c of
        Some msg \<Rightarrow> (Inl (''Failed to upload file to S3: '' @ msg), w1)
      | None \<Rightarrow>
          (Inr (key, bucketName e),
           w1\<lparr>s3 := (s3 w1)((bucketName e, key) \<mapsto>
                  \<lparr>Body = fileBuffer, ContentType = mime, Metadata = meta\<rparr>)\<rparr>))"

definition S3_deleteFile :: "env \<Rightarrow> string \<Rightarrow> world \<Rightarrow> (string + unit) \<times> world" where
  "S3_deleteFile e key w =
     (let c = DeleteObject (bucketName e) key; w1 = sent c w in
      case fails e c of
        Some msg \<Rightarrow> (Inl (''Failed to delete file from S3: '' @ msg), w1)
      | None \<Rightarrow> (Inr (), w1\<lparr>s3 := (s3 w1)((bucketName e, key) := None)\<rparr>))"

definition S3_getPresignedUrl ::
  "env \<Rightarrow> string \<Rightarrow> nat \<Rightarrow> world \<Rightarrow> (string + string) \<times> world" where
  "S3_getPresignedUrl e key expiresIn w =
     (let c = SignUrl (bucketName e) key expiresIn; w1 = sent c w in
      case fails e c of
        Some msg \<Rightarrow> (Inl (''Failed to generate presigned URL: '' @ msg), w1)
      | None \<Rightarrow> (Inr (getSignedUrl e (bucketName e) key expiresIn), w1))"

section \<open>services/dynamoService.ts\<close>

definition Dynamo_saveMetadata ::
  "env \<Rightarrow> js_date \<Rightarrow> FileMetadata \<Rightarrow> world \<Rightarrow> (string + unit) \<times> world" where
  "Dynamo_saveMetadata e now m w =
     (let item = m\<lparr>uploadedAt :=
                   (if uploadedAt m \<noteq> [] then uploadedAt m else toISOString now)\<rparr>;
          c = PutItem item; w1 = sent c w in
      case fails e c of
        Some msg \<Rightarrow> (Inl (''Failed to save metadata to DynamoDB: '' @ msg), w1)
      | None \<Rightarrow> (Inr (), w1\<lparr>db := (db w1)(id_m item \<mapsto> item)\<rparr>))"

definition Dynamo_getMetadata ::
  "env \<Rightarrow> string \<Rightarrow> world \<Rightarrow> (string + FileMetadata option) \<times> world" where
  "Dynamo_getMetadata e fileId w =
     (let c = GetItem fileId; w1 = sent c w in
      case fails e c of
        Some msg \<Rightarrow> (Inl (''Failed to get metadata from DynamoDB: '' @ msg), w1)
      | None \<Rightarrow> (Inr (db w1 fileId), w1))"

text \<open>\<^verbatim>\<open>updateMetadata\<close> sets the given fields of the item. The callers update an
  item they have just written or read; for a key with no item the table is left as it
  is here.\<close>

definition apply_updates :: "updates \<Rightarrow> FileMetadata \<Rightarrow> FileMetadata" where
  "apply_updates u m =
     (let m1 = (case upd_extractedMetadata u of
                  None \<Rightarrow> m
                | Some x \<Rightarrow> m\<lparr>extractedMetadata := Some x\<rparr>)
      in case upd_status u of
           None \<Rightarrow> m1
         | Some st \<Rightarrow> m1\<lparr>status := st\<rparr>)"

definition updateMetadata ::
  "env \<Rightarrow> string \<Rightarrow> updates \<Rightarrow> world \<Rightarrow> (string + unit) \<times> world" where
  "updateMetadata e fileId u w =
     (let c = UpdateItem fileId u; w1 = sent c w in
      case fails e c of
        Some msg \<Rightarrow> (Inl (''Failed to update metadata in DynamoDB: '' @ msg), w1)
      | None \<Rightarrow>
          (Inr (),
           case db w1 fileId of
             None \<Rightarrow> w1
           | Some m \<Rightarrow> w1\<lparr>db := (db w1)(fileId \<mapsto> apply_updates u m)\<rparr>))"

definition deleteMetadata :: "env \<Rightarrow> string \<Rightarrow> world \<Rightarrow> (string + unit) \<times> world" where
  "deleteMetadata e fileId w =
     (let c = DeleteItem fileId; w1 = sent c w in
      case fails e c of
        Some msg \<Rightarrow> (Inl (''Failed to delete metadata from DynamoDB: '' @ msg), w1)
      | None \<Rightarrow> (Inr (), w1\<lparr>db := (db w1)(fileId := None)\<rparr>))"

definition updateFileStatus ::
  "env \<Rightarrow> string \<Rightarrow> FileStatus \<Rightarrow> world \<Rightarrow> (string + unit) \<times> world" where
  "updateFileStatus e fileId st w =
     updateMetadata e fileId \<lparr>upd_extractedMetadata = None, upd_status = Some st\<rparr> w"

definition addExtractedMetadata ::
  "env \<Rightarrow> string \<Rightarrow> ExtractedMetadata \<Rightarrow> world \<Rightarrow> (string + unit) \<times> world" where
  "addExtractedMetadata e fileId x w =
     updateMetadata e fileId
       \<lparr>upd_extractedMetadata = Some x, upd_status = Some PROCESSED\<rparr> w"

section \<open>controllers/fileController.ts\<close>

record multer_file =
  originalname :: string
  mimetype :: string
  size_f :: nat
  buffer :: buffer

text \<open>The request after the multipart parser: the file of the field \<^verbatim>\<open>file\<close>, if
  any, and the text of the field \<^verbatim>\<open>userMetadata\<close>, if any.\<close>

record request =
  file_r :: "multer_file option"
  body_userMetadata :: "string option"

datatype body =
    ErrorBody string
  | UploadOk string string
  | MetadataOk FileMetadata
  | DeleteOk string
  | DownloadOk string nat

record response =
  statusCode :: nat
  body :: body

text \<open>\<^verbatim>\<open>userMetadata.author || 'anonymous'\<close>: reading a property of
  \<^verbatim>\<open>null\<close> throws a type error (\<open>None\<close>); a value that is not an object has no
  such property; a falsy value gives the default.\<close>

fun truthy :: "json \<Rightarrow> bool" where
  "truthy JNull = False"
| "truthy (JBool b) = b"
| "truthy (JNumber n) = (n \<noteq> 0)"
| "truthy (JString s) = (s \<noteq> [])"
| "truthy (JArray xs) = True"
| "truthy (JObject kvs) = True"

fun author_or_anonymous :: "json \<Rightarrow> json option" where
  "author_or_anonymous JNull = None"
| "author_or_anonymous (JObject kvs) =
     (case map_of (rev kvs) ''author'' of
        None \<Rightarrow> Some (JString ''anonymous'')
      | Some v \<Rightarrow> Some (if truthy v then v else JString ''anonymous''))"
| "author_or_anonymous v = Some (JString ''anonymous'')"

definition internal_error :: "string \<Rightarrow> response" where
  "internal_error msg = \<lparr>statusCode = 500, body = ErrorBody msg\<rparr>"

definition uploadFile :: "env \<Rightarrow> ambient \<Rightarrow> request \<Rightarrow> world \<Rightarrow> response \<times> world" where
  "uploadFile e a req w =
     (case file_r req of
        None \<Rightarrow> (\<lparr>statusCode = 400, body = ErrorBody ''No file uploaded''\<rparr>, w)
      | Some f \<Rightarrow>
     (case (case body_userMetadata req of
              None \<Rightarrow> Some (JObject [])
            | Some s \<Rightarrow> if s = [] then Some (JObject []) else JSON_parse e s) of
        None \<Rightarrow> (internal_error ''Internal server error during upload'', w)
      | Some um \<Rightarrow>
     if \<not> validateFileType (mimetype f) then
       (\<lparr>statusCode = 400, body = ErrorBody
           ''Invalid file type. Allowed types: PDF, Images (JPEG, PNG, GIF, WebP), Text, Word documents''\<rparr>,
        w)
     else if \<not> validateFileSize (size_f f) defaultMaxSize then
       (\<lparr>statusCode = 400, body = ErrorBody ''File too large. Maximum size is 50MB''\<rparr>, w)
     else
     (let fileId = uuid a;
          key = generateS3Key (t_key a) (originalname f) fileId in
      case author_or_anonymous um of
        None \<Rightarrow> (internal_error ''Internal server error during upload'', w)
      | Some uploadedBy \<Rightarrow>
     (case S3_uploadFile e key (buffer f) (mimetype f)
             [(''fileId'', JString fileId),
              (''originalName'', JString (originalname f)),
              (''uploadedBy'', uploadedBy)] w of
        (Inl err, w1) \<Rightarrow> (internal_error ''Internal server error during upload'', w1)
      | (Inr (rkey, rbucket), w1) \<Rightarrow>
     (let metadata =
            \<lparr>id_m = fileId, originalName = originalname f, fileName = originalname f,
             mimeType = mimetype f, size_m = size_f f, s3Key = rkey, s3Bucket = rbucket,
             uploadedAt = toISOString (t_record a), userMetadata = um,
             extractedMetadata = None, status = UPLOADED\<rparr> in
      case Dynamo_saveMetadata e (t_save a) metadata w1 of
        (Inl err, w2) \<Rightarrow> (internal_error ''Internal server error during upload'', w2)
      | (Inr u, w2) \<Rightarrow>
     (case updateFileStatus e fileId PROCESSING w2 of
        (Inl err, w3) \<Rightarrow> (internal_error ''Internal server error during upload'', w3)
      | (Inr u', w3) \<Rightarrow>
          (\<lparr>statusCode = 201, body = UploadOk fileId ''File uploaded successfully''\<rparr>,
           w3)))))))"

definition getMetadata :: "env \<Rightarrow> string \<Rightarrow> world \<Rightarrow> response \<times> world" where
  "getMetadata e fileId w =
     (if \<not> is_uuid fileId then
        (\<lparr>statusCode = 400, body = ErrorBody ''Invalid file ID format''\<rparr>, w)
      else
        case Dynamo_getMetadata e fileId w of
          (Inl err, w1) \<Rightarrow>
            (internal_error ''Internal server error while retrieving metadata'', w1)
        | (Inr None, w1) \<Rightarrow> (\<lparr>statusCode = 404, body = ErrorBody ''File not found''\<rparr>, w1)
        | (Inr (Some m), w1) \<Rightarrow> (\<lparr>statusCode = 200, body = MetadataOk m\<rparr>, w1))"

definition deleteFile :: "env \<Rightarrow> string \<Rightarrow> world \<Rightarrow> response \<times> world" where
  "deleteFile e fileId w =
     (case Dynamo_getMetadata e fileId w of
        (Inl err, w1) \<Rightarrow> (internal_error ''Internal server error while deleting file'', w1)
      | (Inr None, w1) \<Rightarrow> (\<lparr>statusCode = 404, body = ErrorBody ''File not found''\<rparr>, w1)
      | (Inr (Some m), w1) \<Rightarrow>
     (case S3_deleteFile e (s3Key m) w1 of
        (Inl err, w2) \<Rightarrow> (internal_error ''Internal server error while deleting file'', w2)
      | (Inr u, w2) \<Rightarrow>
     (case deleteMetadata e fileId w2 of
        (Inl err, w3) \<Rightarrow> (internal_error ''Internal server error while deleting file'', w3)
      | (Inr u', w3) \<Rightarrow>
          (\<lparr>statusCode = 200, body = DeleteOk ''File deleted successfully''\<rparr>, w3))))"

definition getDownloadUrl :: "env \<Rightarrow> string \<Rightarrow> world \<Rightarrow> response \<times> world" where
  "getDownloadUrl e fileId w =
     (case Dynamo_getMetadata e fileId w of
        (Inl err, w1) \<Rightarrow>
          (internal_error ''Internal server error while generating download URL'', w1)
      | (Inr None, w1) \<Rightarrow> (\<lparr>statusCode = 404, body = ErrorBody ''File not found''\<rparr>, w1)
      | (Inr (Some m), w1) \<Rightarrow>
     (case S3_getPresignedUrl e (s3Key m) 3600 w1 of
        (Inl err, w2) \<Rightarrow>
          (internal_error ''Internal server error while generating download URL'', w2)
      | (Inr url, w2) \<Rightarrow> (\<lparr>statusCode = 200, body = DownloadOk url 3600\<rparr>, w2)))"

section \<open>middleware/upload.ts, middleware/errorHandler.ts and the upload route of app.ts\<close>

datatype js_error =
    AppError string nat
  | MulterError string
  | OtherError string string

definition allowedMimeTypes :: "string list" where
  "allowedMimeTypes =
     [''application/pdf'', ''image/jpeg'', ''image/png'', ''image/gif'', ''image/webp'',
      ''text/plain'', ''application/msword'',
      ''application/vnd.openxmlformats-officedocument.wordprocessingml.document'']"

definition maxFileSize :: nat where
  "maxFileSize = 50 * 1024 * 1024"

definition fileFilter :: "multer_file \<Rightarrow> js_error option" where
  "fileFilter f =
     (if mimetype f \<in> set allowedMimeTypes then None
      else Some (AppError ''Invalid file type'' 400))"

text \<open>\<^verbatim>\<open>upload.single('file')\<close> as configured: the multipart parser asks the file
  filter first and passes its error on; a file whose size reaches the limit of
  \<^verbatim>\<open>limits.fileSize\<close> bytes ends with the parser's error
  \<^verbatim>\<open>LIMIT_FILE_SIZE\<close> (the parser stops a file at the limit, so a file of exactly
  that many bytes is refused as well); otherwise the request goes on with the file in
  memory.\<close>

definition uploadSingle :: "request \<Rightarrow> js_error + request" where
  "uploadSingle req =
     (case file_r req of
        None \<Rightarrow> Inr req
      | Some f \<Rightarrow>
          (case fileFilter f of
             Some err \<Rightarrow> Inl err
           | None \<Rightarrow>
               if size_f f \<ge> maxFileSize then Inl (MulterError ''LIMIT_FILE_SIZE'')
               else Inr req))"

text \<open>\<^verbatim>\<open>handleMulterError\<close> answers three of the parser's errors itself and passes
  every other error on (\<open>None\<close>).\<close>

definition handleMulterError :: "js_error \<Rightarrow> response option" where
  "handleMulterError err =
     (case err of
        MulterError code \<Rightarrow>
          if code = ''LIMIT_FILE_SIZE'' then
            Some \<lparr>statusCode = 400, body = ErrorBody ''File too large. Maximum size is 50MB''\<rparr>
          else if code = ''LIMIT_FILE_COUNT'' then
            Some \<lparr>statusCode = 400,
                  body = ErrorBody ''Too many files. Upload one file at a time''\<rparr>
          else if code = ''LIMIT_UNEXPECTED_FILE'' then
            Some \<lparr>statusCode = 400,
                  body = ErrorBody ''Unexpected field name. Use \"file\" field for upload''\<rparr>
          else None
      | _ \<Rightarrow> None)"

definition error_name :: "js_error \<Rightarrow> string" where
  "error_name err =
     (case err of
        AppError msg code \<Rightarrow> ''Error''
      | MulterError code \<Rightarrow> ''MulterError''
      | OtherError name msg \<Rightarrow> name)"

definition errorHandler :: "js_error \<Rightarrow> response" where
  "errorHandler err =
     (let r0 = (case err of
                  AppError msg code \<Rightarrow> (code, msg)
                | _ \<Rightarrow> (500, ''Internal Server Error''));
          r1 = (if error_name err = ''ValidationError'' then (400, ''Validation Error'')
                else r0);
          r2 = (if error_name err = ''MulterError'' then (400, ''File upload error'')
                else r1)
      in \<lparr>statusCode = fst r2, body = ErrorBody (snd r2)\<rparr>)"

text \<open>\<^verbatim>\<open>POST /upload\<close>: the parser, then the handler of its errors, then the
  controller; an error nobody answered reaches the global error handler.\<close>

definition post_upload :: "env \<Rightarrow> ambient \<Rightarrow> request \<Rightarrow> world \<Rightarrow> response \<times> world" where
  "post_upload e a raw w =
     (case uploadSingle raw of
        Inl err \<Rightarrow>
          (case handleMulterError err of
             Some r \<Rightarrow> (r, w)
           | None \<Rightarrow> (errorHandler err, w))
      | Inr req \<Rightarrow> uploadFile e a req w)"

section \<open>lambda/metadataExtractor.ts\<close>

record s3_event_record =
  bucket_name :: string
  object_key :: string

definition getFileFromS3 ::
  "env \<Rightarrow> string \<Rightarrow> string \<Rightarrow> world \<Rightarrow> (string + buffer) \<times> world" where
  "getFileFromS3 e bucket key w =
     (let c = GetObject bucket key; w1 = sent c w in
      case fails e c of
        Some msg \<Rightarrow> (Inl msg, w1)
      | None \<Rightarrow>
          (case s3 w1 (bucket, key) of
             None \<Rightarrow> (Inl ''The specified key does not exist.'', w1)
           | Some obj \<Rightarrow> (Inr (Body obj), w1)))"

definition basic_metadata :: "string \<Rightarrow> nat \<Rightarrow> ExtractedMetadata" where
  "basic_metadata mime n =
     \<lparr>fileType = mime, fileSize = n, pages = None, dimensions = None, textContent = None,
      createdDate = None, modifiedDate = None, encoding = None, exifData = None,
      textAnalysis = None, extractionError = None\<rparr>"

definition or_zero :: "nat option \<Rightarrow> nat" where
  "or_zero x = (case x of None \<Rightarrow> 0 | Some n \<Rightarrow> n)"

text \<open>The body of the \<^verbatim>\<open>try\<close> block of \<^verbatim>\<open>extractFileMetadata\<close>: \<open>Inl\<close> is
  the message of what it throws.\<close>

definition extract_by_type :: "env \<Rightarrow> buffer \<Rightarrow> string \<Rightarrow> string + ExtractedMetadata" where
  "extract_by_type e fileBuffer mime =
     (let metadata = basic_metadata mime (length fileBuffer) in
      if mime = ''application/pdf'' then
        (case pdfParse e fileBuffer of
           Inl msg \<Rightarrow> Inl msg
         | Inr pdfData \<Rightarrow>
             Inr (metadata
               \<lparr>pages := Some (numpages pdfData),
                textContent := Some (take 5000 (pdf_text pdfData)),
                createdDate :=
                  (case pdf_info pdfData of None \<Rightarrow> None | Some i \<Rightarrow> CreationDate i),
                modifiedDate :=
                  (case pdf_info pdfData of None \<Rightarrow> None | Some i \<Rightarrow> ModDate i)\<rparr>))
      else if take 6 mime = ''image/'' then
        (case sharp_metadata e fileBuffer of
           Inl msg \<Rightarrow> Inl msg
         | Inr imageData \<Rightarrow>
             Inr (metadata
               \<lparr>dimensions :=
                  Some (or_zero (img_width imageData), or_zero (img_height imageData)),
                encoding := img_format imageData,
                exifData :=
                  (case img_exif imageData of
                     None \<Rightarrow> None
                   | Some x \<Rightarrow>
                       Some \<lparr>density = img_density imageData,
                             hasProfile = img_hasProfile imageData,
                             hasAlpha = img_hasAlpha imageData\<rparr>)\<rparr>))
      else if mime = ''text/plain'' then
        (let content = utf8_decode e fileBuffer in
         Inr (metadata
           \<lparr>textContent := Some (take 5000 content),
            encoding := Some ''utf8'',
            textAnalysis :=
              Some \<lparr>lines = length (split_char 10 content),
                    words = length (split_ws content),
                    characters = length content\<rparr>\<rparr>))
      else Inr metadata)"

text \<open>\<^verbatim>\<open>extractFileMetadata\<close>: the \<^verbatim>\<open>catch\<close> block answers with a fresh object
  of the type, the size and the message.\<close>

definition extractFileMetadata :: "env \<Rightarrow> buffer \<Rightarrow> string \<Rightarrow> ExtractedMetadata" where
  "extractFileMetadata e fileBuffer mime =
     (case extract_by_type e fileBuffer mime of
        Inr metadata \<Rightarrow> metadata
      | Inl msg \<Rightarrow>
          (basic_metadata mime (length fileBuffer))\<lparr>extractionError := Some msg\<rparr>)"

text \<open>\<^verbatim>\<open>processS3Record\<close>: \<open>Inl\<close> is an error thrown to the handler, \<open>Inr\<close> a
  normal return.\<close>

definition processS3Record ::
  "env \<Rightarrow> s3_event_record \<Rightarrow> world \<Rightarrow> (string + unit) \<times> world" where
  "processS3Record e r w =
     (case decodeURIComponent e
             (map (\<lambda>c. if c = CHR ''+'' then CHR '' '' else c) (object_key r)) of
        None \<Rightarrow> (Inl ''URI malformed'', w)
      | Some objectKey \<Rightarrow>
     (case getFileFromS3 e (bucket_name r) objectKey w of
        (Inl err, w1) \<Rightarrow> (Inl err, w1)
      | (Inr fileBuffer, w1) \<Rightarrow>
     (case nth_opt (split_char CHR ''/'' objectKey) 2 of
        None \<Rightarrow> (Inr (), w1)
      | Some fileId \<Rightarrow>
     if fileId = [] then (Inr (), w1)
     else
     (case Dynamo_getMetadata e fileId w1 of
        (Inl err, w2) \<Rightarrow> (Inl err, w2)
      | (Inr None, w2) \<Rightarrow> (Inr (), w2)
      | (Inr (Some metadata), w2) \<Rightarrow>
     (let extracted = extractFileMetadata e fileBuffer (mimeType metadata) in
      case addExtractedMetadata e fileId extracted w2 of
        (Inl err, w3) \<Rightarrow> (Inl err, w3)
      | (Inr u, w3) \<Rightarrow> (Inr (), w3))))))"

text \<open>\<^verbatim>\<open>handler\<close>: every record of the event in turn; an error of one record is
  logged and the loop goes on.\<close>

fun handler :: "env \<Rightarrow> s3_event_record list \<Rightarrow> world \<Rightarrow> world" where
  "handler e [] w = w"
| "handler e (r # rs) w = handler e rs (snd (processS3Record e r w))"

section \<open>Counting as the specification words it\<close>

text \<open>The number of whitespace-delimited tokens of a text: the positions where a
  character that is not whitespace follows the start of the text or a whitespace
  character. \<open>inw\<close> says that the character before was part of a token.\<close>

fun count_words_from :: "bool \<Rightarrow> jsstring \<Rightarrow> nat" where
  "count_words_from inw [] = 0"
| "count_words_from inw (c # cs) =
     (if is_space c then count_words_from False cs
      else (if inw then 0 else 1) + count_words_from True cs)"

definition spec_token_count :: "jsstring \<Rightarrow> nat" where
  "spec_token_count s = count_words_from False s"

section \<open>Concrete inputs\<close>

text \<open>An environment in which no call to a store fails, the parser reads the empty
  object only, the document libraries reject their input, the decoder reads ASCII and
  keys need no decoding; the empty world; a moment; and a small text upload.\<close>

definition sample_env :: env where
  "sample_env =
     \<lparr>fails = (\<lambda>c. None),
      JSON_parse = (\<lambda>s. if s = ''{}'' then Some (JObject []) else None),
      pdfParse = (\<lambda>b. Inl ''Invalid PDF structure''),
      sharp_metadata = (\<lambda>b. Inl ''Input buffer contains unsupported image format''),
      utf8_decode = map unat,
      decodeURIComponent = Some,
      getSignedUrl = (\<lambda>b k n. ''http://localhost:4566/'' @ b @ ''/'' @ k),
      bucketName = ''upload-test-bucket''\<rparr>"

definition empty_world :: world where
  "empty_world = \<lparr>s3 = Map.empty, db = Map.empty, trace = []\<rparr>"

definition sample_date :: js_date where
  "sample_date =
     \<lparr>year = 2024, month = 1, day = 15, hours = 10, minutes = 30, seconds = 0,
      millis = 0\<rparr>"

definition sample_ambient :: ambient where
  "sample_ambient =
     \<lparr>uuid = ''123e4567-e89b-42d3-a456-426614174000'', t_key = sample_date,
      t_record = sample_date, t_save = sample_date\<rparr>"

definition sample_file :: multer_file where
  "sample_file =
     \<lparr>originalname = ''my file.txt'', mimetype = ''text/plain'', size_f = 3,
      buffer = [104, 105, 10]\<rparr>"

definition sample_request :: request where
  "sample_request = \<lparr>file_r = Some sample_file, body_userMetadata = None\<rparr>"

text \<open>An executable, and a file one byte over the 50 MiB ceiling.\<close>

definition exe_file :: multer_file where
  "exe_file =
     sample_file\<lparr>originalname := ''test-invalid.exe'',
                 mimetype := ''application/x-msdownload''\<rparr>"

definition big_file :: multer_file where
  "big_file = sample_file\<lparr>size_f := 50 * 1024 * 1024 + 1\<rparr>"

text \<open>A stored PDF whose bytes the PDF library rejects, its record, and the
  notification of its creation.\<close>

definition corrupt_pdf_record :: FileMetadata where
  "corrupt_pdf_record =
     \<lparr>id_m = ''123e4567-e89b-42d3-a456-426614174000'', originalName = ''broken.pdf'',
      fileName = ''broken.pdf'', mimeType = ''application/pdf'', size_m = 3,
      s3Key = ''uploads/2024-01-15/123e4567-e89b-42d3-a456-426614174000/broken.pdf'',
      s3Bucket = ''upload-test-bucket'', uploadedAt = ''2024-01-15T10:30:00.000Z'',
      userMetadata = JObject [], extractedMetadata = None, status = PROCESSING\<rparr>"

definition corrupt_pdf_world :: world where
  "corrupt_pdf_world =
     \<lparr>s3 = [(''upload-test-bucket'',
              ''uploads/2024-01-15/123e4567-e89b-42d3-a456-426614174000/broken.pdf'')
             \<mapsto> \<lparr>Body = [1, 2, 3], ContentType = ''application/pdf'', Metadata = []\<rparr>],
      db = [''123e4567-e89b-42d3-a456-426614174000'' \<mapsto> corrupt_pdf_record],
      trace = []\<rparr>"

definition corrupt_pdf_event :: s3_event_record where
  "corrupt_pdf_event =
     \<lparr>bucket_name = ''upload-test-bucket'',
      object_key = ''uploads/2024-01-15/123e4567-e89b-42d3-a456-426614174000/broken.pdf''\<rparr>"

text \<open>User metadata whose author has 256 characters, as text and as the parser reads
  it.\<close>

definition long_author_text :: string where
  "long_author_text =
     ''{'' @ [CHR 0x22] @ ''author'' @ [CHR 0x22] @ '':'' @ [CHR 0x22]
     @ replicate 256 (CHR ''a'') @ [CHR 0x22] @ ''}''"

definition long_author_env :: env where
  "long_author_env =
     sample_env\<lparr>JSON_parse :=
       (\<lambda>s. if s = long_author_text
            then Some (JObject [(''author'', JString (replicate 256 (CHR ''a'')))])
            else None)\<rparr>"



section \<open>Splitting and storage keys\<close>


lemma split_char_append:
  "d \<notin> set xs \<Longrightarrow> split_char d (xs @ d # ys) = xs # split_char d ys"
  by (induction xs) (auto split: list.splits)

lemma split_char_none: "d \<notin> set xs \<Longrightarrow> split_char d xs = [xs]"
  by (induction xs) (auto split: list.splits)

lemma digit_char_in: "digit_char n \<in> set ''0123456789''"
proof -
  have "n mod 10 < length ''0123456789''" by simp
  then show ?thesis unfolding digit_char_def by (rule nth_mem)
qed

lemma pad_digits: "set (pad k n) \<subseteq> set ''0123456789''"
  by (induction k arbitrary: n) (use digit_char_in in auto)

lemma pad_no: "c \<notin> set ''0123456789'' \<Longrightarrow> c \<notin> set (pad k n)"
  using pad_digits[of k n] by blast

lemma iso_date_no_T: "CHR ''T'' \<notin> set (iso_date d)"
  by (simp add: iso_date_def pad_no)

lemma iso_date_no_slash: "CHR ''/'' \<notin> set (iso_date d)"
  by (simp add: iso_date_def pad_no)

lemma timestamp_is_date: "hd (split_char CHR ''T'' (toISOString d)) = iso_date d"
proof -
  have "toISOString d =
          iso_date d @ CHR ''T'' # (pad 2 (hours d) @ '':'' @ pad 2 (minutes d) @ '':''
            @ pad 2 (seconds d) @ ''.'' @ pad 3 (millis d) @ ''Z'')"
    by (simp add: toISOString_def)
  then show ?thesis
    by (simp add: split_char_append[OF iso_date_no_T])
qed

lemma generateS3Key_eq:
  "generateS3Key now filename fileId =
     ''uploads/'' @ iso_date now @ ''/'' @ fileId @ ''/'' @ filename"
  by (simp add: generateS3Key_def timestamp_is_date)

lemma split_key:
  assumes "CHR ''/'' \<notin> set fileId"
  shows "split_char CHR ''/'' (generateS3Key now filename fileId)
         = ''uploads'' # iso_date now # fileId # split_char CHR ''/'' filename"
proof -
  have a: "CHR ''/'' \<notin> set ''uploads''" by simp
  have "generateS3Key now filename fileId
        = ''uploads'' @ CHR ''/'' # (iso_date now @ CHR ''/'' # (fileId @ CHR ''/'' # filename))"
    by (simp add: generateS3Key_eq)
  then show ?thesis
    by (simp add: split_char_append[OF a] split_char_append[OF iso_date_no_slash]
      split_char_append[OF assms])
qed

section \<open>Identifiers\<close>

lemma hex_char_no_slash: "hex_char c \<Longrightarrow> c \<noteq> CHR ''/''"
  by (auto simp: hex_char_def)

lemma list_all_take_drop_nth:
  assumes "list_all P (take k (drop j s))" and "j \<le> i" and "i < j + k" and "i < length s"
  shows "P (s ! i)"
proof -
  have "i - j < length (take k (drop j s))" using assms(2-4) by auto
  with assms(1) have "P (take k (drop j s) ! (i - j))" by (simp add: list_all_length)
  then show ?thesis using assms(2-4) by simp
qed

lemma is_uuid_nth_no_slash:
  assumes "is_uuid s" and "i < 36"
  shows "s ! i \<noteq> CHR ''/''"
proof -
  from assms(1)[unfolded is_uuid_def] have len: "length s = 36"
    and g0: "list_all hex_char (take 8 s)"
    and g2: "list_all hex_char (take 4 (drop 9 s))"
    and g3: "list_all hex_char (take 3 (drop 15 s))"
    and g4: "list_all hex_char (take 3 (drop 20 s))"
    and g5: "list_all hex_char (take 12 (drop 24 s))"
    and d: "s ! 8 = CHR ''-''" "s ! 13 = CHR ''-''" "s ! 18 = CHR ''-''" "s ! 23 = CHR ''-''"
    and v: "s ! 14 \<in> set ''12345''" "s ! 19 \<in> set ''89abAB''"
    by blast+
  from g0 have g1: "list_all hex_char (take 8 (drop 0 s))" by simp
  consider "i < 8" | "i = 8" | "9 \<le> i \<and> i < 13" | "i = 13" | "i = 14"
    | "15 \<le> i \<and> i < 18" | "i = 18" | "i = 19" | "20 \<le> i \<and> i < 23" | "i = 23"
    | "24 \<le> i \<and> i < 36"
    using assms(2) by linarith
  then show ?thesis
  proof cases
    case 1
    then show ?thesis
      using list_all_take_drop_nth[OF g1, of i] len hex_char_no_slash by simp
  next
    case 2
    then show ?thesis using d by simp
  next
    case 3
    then show ?thesis
      using list_all_take_drop_nth[OF g2, of i] len hex_char_no_slash by simp
  next
    case 4
    then show ?thesis using d by simp
  next
    case 5
    then show ?thesis using v(1) by auto
  next
    case 6
    then show ?thesis
      using list_all_take_drop_nth[OF g3, of i] len hex_char_no_slash by simp
  next
    case 7
    then show ?thesis using d by simp
  next
    case 8
    then show ?thesis using v(2) by auto
  next
    case 9
    then show ?thesis
      using list_all_take_drop_nth[OF g4, of i] len hex_char_no_slash by simp
  next
    case 10
    then show ?thesis using d by simp
  next
    case 11
    then show ?thesis
      using list_all_take_drop_nth[OF g5, of i] len hex_char_no_slash by simp
  qed
qed

lemma is_uuid_no_slash: "is_uuid s \<Longrightarrow> CHR ''/'' \<notin> set s"
proof
  assume u: "is_uuid s" and "CHR ''/'' \<in> set s"
  then obtain i where "i < length s" "s ! i = CHR ''/''" by (auto simp: in_set_conv_nth)
  moreover from u have "length s = 36" by (simp add: is_uuid_def)
  ultimately show False using is_uuid_nth_no_slash[OF u, of i] by simp
qed

lemma is_uuid_canonical: "is_uuid s \<Longrightarrow> canonical_uuid s"
proof -
  assume u: "is_uuid s"
  from u[unfolded is_uuid_def] have len: "length s = 36"
    and g1: "list_all hex_char (take 8 s)"
    and g2: "list_all hex_char (take 4 (drop 9 s))"
    and g3: "list_all hex_char (take 3 (drop 15 s))"
    and g4: "list_all hex_char (take 3 (drop 20 s))"
    and g5: "list_all hex_char (take 12 (drop 24 s))"
    and d: "s ! 8 = CHR ''-''" "s ! 13 = CHR ''-''" "s ! 18 = CHR ''-''" "s ! 23 = CHR ''-''"
    and v: "s ! 14 \<in> set ''12345''" "s ! 19 \<in> set ''89abAB''"
    by blast+
  have a: "drop 14 s = s ! 14 # drop 15 s" using Cons_nth_drop_Suc[of 14 s] len by simp
  have b: "drop 19 s = s ! 19 # drop 20 s" using Cons_nth_drop_Suc[of 19 s] len by simp
  have h14: "hex_char (s ! 14)" using v(1) by (auto simp: hex_char_def)
  have h19: "hex_char (s ! 19)" using v(2) by (auto simp: hex_char_def)
  have c3: "list_all hex_char (take 4 (drop 14 s))"
    unfolding a using h14 g3 by (simp add: take_Cons')
  have c4: "list_all hex_char (take 4 (drop 19 s))"
    unfolding b using h19 g4 by (simp add: take_Cons')
  show ?thesis
    unfolding canonical_uuid_def using len g1 g2 c3 c4 g5 d by blast
qed

section \<open>Counting lines and words\<close>


lemma count_words_dropWhile:
  "count_words_from False (dropWhile is_space cs) = count_words_from False cs"
  by (induction cs) auto

lemma last_dropWhile: "dropWhile P xs \<noteq> [] \<Longrightarrow> last (dropWhile P xs) = last xs"
  by (induction xs) (auto split: if_splits)

lemma dropWhile_Nil_last: "dropWhile P xs = [] \<Longrightarrow> xs \<noteq> [] \<Longrightarrow> P (last xs)"
  by (simp add: dropWhile_eq_Nil_conv)

lemma length_split_ws_from:
  "length (split_ws_from acc s) =
     count_words_from (acc \<noteq> []) s
     + (if acc \<noteq> [] then 1 else 0)
     + (if acc = [] \<and> (s = [] \<or> is_space (hd s)) then 1 else 0)
     + (if s \<noteq> [] \<and> is_space (last s) then 1 else 0)"
proof (induction acc s rule: split_ws_from.induct)
  case (1 acc)
  then show ?case by simp
next
  case (2 acc c cs)
  show ?case
  proof (cases "is_space c")
    case False
    with 2(2) show ?thesis by auto
  next
    case True
    let ?dw = "dropWhile is_space cs"
    note ih = 2(1)[OF True]
    show ?thesis
    proof (cases "?dw = []")
      case dw: True
      then have all: "\<forall>x\<in>set cs. is_space x" by (simp add: dropWhile_eq_Nil_conv)
      have "count_words_from False cs = 0"
        using count_words_dropWhile[of cs] dw by simp
      moreover have "is_space (last (c # cs))"
        using all True by (cases cs) auto
      moreover have "length (split_ws_from [] ?dw) = 1"
        by (simp only: dw split_ws_from.simps rev.simps list.size One_nat_def)
      ultimately show ?thesis using True by simp
    next
      case dw: False
      then have cs: "cs \<noteq> []" by auto
      have hd: "\<not> is_space (hd ?dw)" using dw hd_dropWhile by blast
      have la: "last ?dw = last cs" using dw by (rule last_dropWhile)
      show ?thesis
        using True ih dw cs hd la count_words_dropWhile[of cs] by simp
    qed
  qed
qed

lemma length_split_ws:
  assumes "s \<noteq> []" and "\<not> is_space (hd s)" and "\<not> is_space (last s)"
  shows "length (split_ws s) = spec_token_count s"
  using assms by (simp add: split_ws_def spec_token_count_def length_split_ws_from)



section \<open>The dispatcher\<close>

lemma extract_by_type_throws:
  "extract_by_type e buf mime = Inl msg \<longleftrightarrow>
     (mime = ''application/pdf'' \<and> pdfParse e buf = Inl msg)
     \<or> (mime \<noteq> ''application/pdf'' \<and> take 6 mime = ''image/''
         \<and> sharp_metadata e buf = Inl msg)"
  by (auto simp: extract_by_type_def Let_def split: sum.splits)

lemma handler_append: "handler e (rs @ rs') w = handler e rs' (handler e rs w)"
  by (induction rs arbitrary: w) simp_all

section \<open>The upload controller, case by case\<close>

lemma toISOString_nonempty: "toISOString d \<noteq> []"
  by (simp add: toISOString_def)

lemma uploadFile_accepted:
  assumes "file_r req = Some f"
    and "(case body_userMetadata req of
            None \<Rightarrow> Some (JObject [])
          | Some s \<Rightarrow> if s = [] then Some (JObject []) else JSON_parse e s) = Some um"
    and "validateFileType (mimetype f)"
    and "validateFileSize (size_f f) defaultMaxSize"
    and "author_or_anonymous um = Some uploadedBy"
  shows "uploadFile e a req w =
     (let key = generateS3Key (t_key a) (originalname f) (uuid a);
          item = \<lparr>id_m = uuid a, originalName = originalname f, fileName = originalname f,
                  mimeType = mimetype f, size_m = size_f f, s3Key = key,
                  s3Bucket = bucketName e, uploadedAt = toISOString (t_record a),
                  userMetadata = um, extractedMetadata = None, status = UPLOADED\<rparr>;
          c1 = PutObject (bucketName e) key;
          c2 = PutItem item;
          c3 = UpdateItem (uuid a)
                 \<lparr>upd_extractedMetadata = None, upd_status = Some PROCESSING\<rparr>;
          obj = \<lparr>Body = buffer f, ContentType = mimetype f,
                 Metadata = [(''fileId'', JString (uuid a)),
                             (''originalName'', JString (originalname f)),
                             (''uploadedBy'', uploadedBy)]\<rparr>;
          s3' = (s3 w)((bucketName e, key) \<mapsto> obj)
      in if fails e c1 \<noteq> None then
           (internal_error ''Internal server error during upload'',
            w\<lparr>trace := trace w @ [c1]\<rparr>)
         else if fails e c2 \<noteq> None then
           (internal_error ''Internal server error during upload'',
            w\<lparr>s3 := s3', trace := trace w @ [c1, c2]\<rparr>)
         else if fails e c3 \<noteq> None then
           (internal_error ''Internal server error during upload'',
            w\<lparr>s3 := s3', db := (db w)(uuid a \<mapsto> item), trace := trace w @ [c1, c2, c3]\<rparr>)
         else
           (\<lparr>statusCode = 201, body = UploadOk (uuid a) ''File uploaded successfully''\<rparr>,
            w\<lparr>s3 := s3', db := (db w)(uuid a \<mapsto> item\<lparr>status := PROCESSING\<rparr>),
              trace := trace w @ [c1, c2, c3]\<rparr>))"
  using assms
  by (simp add: uploadFile_def S3_uploadFile_def Dynamo_saveMetadata_def updateFileStatus_def
      updateMetadata_def sent_def Let_def toISOString_nonempty apply_updates_def
      split: option.splits)

lemma uploadFile_rejected:
  assumes "file_r req = Some f"
    and "\<not> (\<exists>um uploadedBy.
            (case body_userMetadata req of
               None \<Rightarrow> Some (JObject [])
             | Some s \<Rightarrow> if s = [] then Some (JObject []) else JSON_parse e s) = Some um
            \<and> validateFileType (mimetype f)
            \<and> validateFileSize (size_f f) defaultMaxSize
            \<and> author_or_anonymous um = Some uploadedBy)"
  shows "snd (uploadFile e a req w) = w \<and> statusCode (fst (uploadFile e a req w)) \<noteq> 201"
proof (cases "(case body_userMetadata req of
               None \<Rightarrow> Some (JObject [])
             | Some s \<Rightarrow> if s = [] then Some (JObject []) else JSON_parse e s)")
  case None
  then show ?thesis using assms(1) by (simp add: uploadFile_def internal_error_def)
next
  case (Some um)
  show ?thesis
  proof (cases "validateFileType (mimetype f) \<and> validateFileSize (size_f f) defaultMaxSize")
    case False
    then show ?thesis using assms(1) Some by (auto simp: uploadFile_def)
  next
    case True
    with assms(2) Some have "author_or_anonymous um = None" by (cases "author_or_anonymous um") auto
    with True show ?thesis using assms(1) Some by (simp add: uploadFile_def internal_error_def Let_def)
  qed
qed

lemma uploadFile_201_accepted:
  assumes "file_r req = Some f" and "statusCode (fst (uploadFile e a req w)) = 201"
  shows "\<exists>um uploadedBy.
            (case body_userMetadata req of
               None \<Rightarrow> Some (JObject [])
             | Some s \<Rightarrow> if s = [] then Some (JObject []) else JSON_parse e s) = Some um
            \<and> validateFileType (mimetype f)
            \<and> validateFileSize (size_f f) defaultMaxSize
            \<and> author_or_anonymous um = Some uploadedBy"
  using uploadFile_rejected[OF assms(1), of e a w] assms(2) by blast

lemma uploadFile_invalid_no_write:
  assumes "file_r req = Some f"
    and "mimetype f \<notin> set allowedTypes \<or> size_f f > 50 * 1024 * 1024"
  shows "snd (uploadFile e a req w) = w"
  using assms
  by (auto simp: uploadFile_def validateFileType_def validateFileSize_def defaultMaxSize_def
      internal_error_def split: option.splits)

lemma allowed_same: "allowedMimeTypes = allowedTypes"
  by (simp add: allowedMimeTypes_def allowedTypes_def)

lemma post_upload_invalid:
  assumes "file_r req = Some f"
    and "mimetype f \<notin> set allowedTypes \<or> size_f f > 50 * 1024 * 1024"
  shows "statusCode (fst (post_upload e a req w)) = 400 \<and> snd (post_upload e a req w) = w"
proof (cases "mimetype f \<in> set allowedTypes")
  case False
  then show ?thesis
    using assms(1)
    by (simp add: post_upload_def uploadSingle_def fileFilter_def allowed_same
        handleMulterError_def errorHandler_def error_name_def)
next
  case True
  with assms(2) have "size_f f \<ge> maxFileSize" by (simp add: maxFileSize_def)
  with True show ?thesis
    using assms(1)
    by (simp add: post_upload_def uploadSingle_def fileFilter_def allowed_same
        handleMulterError_def)
qed

lemma post_upload_passes:
  "uploadSingle req = Inr req \<Longrightarrow> post_upload e a req w = uploadFile e a req w"
  by (simp add: post_upload_def)

lemma uploadFile_invalid_status:
  assumes "file_r req = Some f"
    and "mimetype f \<notin> set allowedTypes \<or> size_f f > 50 * 1024 * 1024"
  shows "statusCode (fst (uploadFile e a req w)) =
           (if (\<exists>s. body_userMetadata req = Some s \<and> s \<noteq> [] \<and> JSON_parse e s = None)
            then 500 else 400)"
  using assms
  by (auto simp: uploadFile_def validateFileType_def validateFileSize_def defaultMaxSize_def
      internal_error_def split: option.splits)

lemma sample_upload_201:
  "statusCode (fst (uploadFile sample_env sample_ambient sample_request empty_world)) = 201"
proof -
  have 1: "file_r sample_request = Some sample_file" by (simp add: sample_request_def)
  have 2: "(case body_userMetadata sample_request of
            None \<Rightarrow> Some (JObject [])
          | Some s \<Rightarrow> if s = [] then Some (JObject []) else JSON_parse sample_env s)
           = Some (JObject [])"
    by (simp add: sample_request_def)
  have 3: "validateFileType (mimetype sample_file)"
    by (simp add: validateFileType_def allowedTypes_def sample_file_def)
  have 4: "validateFileSize (size_f sample_file) defaultMaxSize"
    by (simp add: validateFileSize_def defaultMaxSize_def sample_file_def)
  have 5: "author_or_anonymous (JObject []) = Some (JString ''anonymous'')" by simp
  have 6: "fails sample_env c = None" for c by (simp add: sample_env_def)
  show ?thesis
    by (simp add: uploadFile_accepted[OF 1 2 3 4 5] Let_def 6)
qed

section \<open>Claims\<close>

text \<open>
  C1. When the type-specific extraction throws, whatever the bytes and the declared
  type, \<^verbatim>\<open>extractFileMetadata\<close> answers with the degraded result: the file type,
  the file size and the message as \<^verbatim>\<open>extractionError\<close>, and nothing else. The
  dispatcher writes that result into the record's \<^verbatim>\<open>extractedMetadata\<close>, sets the
  status to \<^verbatim>\<open>processed\<close> and returns normally. The stores are taken to answer:
  a store that fails is a different failure, which the dispatcher does pass on.
\<close>

theorem extraction_failure_degrades:
  assumes "extract_by_type e buf (mimeType m) = Inl msg"
    and "decodeURIComponent e
           (map (\<lambda>c. if c = CHR ''+'' then CHR '' '' else c) (object_key r)) = Some key"
    and "s3 w (bucket_name r, key) = Some obj" and "Body obj = buf"
    and "nth_opt (split_char CHR ''/'' key) 2 = Some fileId" and "fileId \<noteq> []"
    and "db w fileId = Some m"
    and "\<forall>c. fails e c = None"
  shows "let degraded =
               \<lparr>fileType = mimeType m, fileSize = length buf, pages = None,
                dimensions = None, textContent = None, createdDate = None,
                modifiedDate = None, encoding = None, exifData = None,
                textAnalysis = None, extractionError = Some msg\<rparr>
         in extractFileMetadata e buf (mimeType m) = degraded
            \<and> fst (processS3Record e r w) = Inr ()
            \<and> db (snd (processS3Record e r w)) fileId =
                Some (m\<lparr>extractedMetadata := Some degraded, status := PROCESSED\<rparr>)"
proof -
  have x: "extractFileMetadata e buf (mimeType m) =
             \<lparr>fileType = mimeType m, fileSize = length buf, pages = None,
                dimensions = None, textContent = None, createdDate = None,
                modifiedDate = None, encoding = None, exifData = None,
                textAnalysis = None, extractionError = Some msg\<rparr>"
    using assms(1) by (simp add: extractFileMetadata_def basic_metadata_def)
  have g: "getFileFromS3 e (bucket_name r) key w = (Inr buf, sent (GetObject (bucket_name r) key) w)"
    using assms(3,4,8) by (simp add: getFileFromS3_def sent_def Let_def)
  have l: "Dynamo_getMetadata e fileId (sent (GetObject (bucket_name r) key) w) =
             (Inr (Some m), sent (GetItem fileId) (sent (GetObject (bucket_name r) key) w))"
    using assms(7,8) by (simp add: Dynamo_getMetadata_def sent_def Let_def)
  have p: "processS3Record e r w =
             (case addExtractedMetadata e fileId (extractFileMetadata e buf (mimeType m))
                     (sent (GetItem fileId) (sent (GetObject (bucket_name r) key) w)) of
                (Inl err, w3) \<Rightarrow> (Inl err, w3)
              | (Inr u, w3) \<Rightarrow> (Inr (), w3))"
    using assms(2,5,6) by (simp add: processS3Record_def g l)
  show ?thesis
    unfolding Let_def p x[symmetric]
    using assms(7,8)
    by (simp add: addExtractedMetadata_def updateMetadata_def sent_def Let_def apply_updates_def x)
qed

theorem extraction_failure_degrades_witness:
  "extract_by_type sample_env [1, 2, 3] (mimeType corrupt_pdf_record) = Inl ''Invalid PDF structure''
   \<and> decodeURIComponent sample_env
        (map (\<lambda>c. if c = CHR ''+'' then CHR '' '' else c) (object_key corrupt_pdf_event))
      = Some ''uploads/2024-01-15/123e4567-e89b-42d3-a456-426614174000/broken.pdf''
   \<and> s3 corrupt_pdf_world
        (bucket_name corrupt_pdf_event,
         ''uploads/2024-01-15/123e4567-e89b-42d3-a456-426614174000/broken.pdf'')
      = Some \<lparr>Body = [1, 2, 3], ContentType = ''application/pdf'', Metadata = []\<rparr>
   \<and> Body \<lparr>Body = [1, 2, 3], ContentType = ''application/pdf'', Metadata = []\<rparr> = [1, 2, 3]
   \<and> nth_opt (split_char CHR ''/''
         ''uploads/2024-01-15/123e4567-e89b-42d3-a456-426614174000/broken.pdf'') 2
      = Some ''123e4567-e89b-42d3-a456-426614174000''
   \<and> ''123e4567-e89b-42d3-a456-426614174000'' \<noteq> []
   \<and> db corrupt_pdf_world ''123e4567-e89b-42d3-a456-426614174000'' = Some corrupt_pdf_record
   \<and> (\<forall>c. fails sample_env c = None)
   \<and> (let degraded =
               \<lparr>fileType = mimeType corrupt_pdf_record, fileSize = length [1, 2, 3::8 word],
                pages = None,
                dimensions = None, textContent = None, createdDate = None,
                modifiedDate = None, encoding = None, exifData = None,
                textAnalysis = None, extractionError = Some ''Invalid PDF structure''\<rparr>
         in extractFileMetadata sample_env [1, 2, 3] (mimeType corrupt_pdf_record) = degraded
            \<and> fst (processS3Record sample_env corrupt_pdf_event corrupt_pdf_world) = Inr ()
            \<and> db (snd (processS3Record sample_env corrupt_pdf_event corrupt_pdf_world))
                 ''123e4567-e89b-42d3-a456-426614174000'' =
                Some (corrupt_pdf_record\<lparr>extractedMetadata := Some degraded,
                        status := PROCESSED\<rparr>))"
proof -
  have h1: "extract_by_type sample_env [1, 2, 3] (mimeType corrupt_pdf_record)
            = Inl ''Invalid PDF structure''"
    by (simp add: extract_by_type_def sample_env_def corrupt_pdf_record_def)
  have h2: "decodeURIComponent sample_env
        (map (\<lambda>c. if c = CHR ''+'' then CHR '' '' else c) (object_key corrupt_pdf_event))
      = Some ''uploads/2024-01-15/123e4567-e89b-42d3-a456-426614174000/broken.pdf''"
    by (simp add: sample_env_def corrupt_pdf_event_def)
  have h3: "s3 corrupt_pdf_world
        (bucket_name corrupt_pdf_event,
         ''uploads/2024-01-15/123e4567-e89b-42d3-a456-426614174000/broken.pdf'')
      = Some \<lparr>Body = [1, 2, 3], ContentType = ''application/pdf'', Metadata = []\<rparr>"
    by (simp add: corrupt_pdf_world_def corrupt_pdf_event_def)
  have h4: "Body \<lparr>Body = [1, 2, 3], ContentType = ''application/pdf'', Metadata = []\<rparr> = [1, 2, 3]"
    by simp
  have h5: "nth_opt (split_char CHR ''/''
         ''uploads/2024-01-15/123e4567-e89b-42d3-a456-426614174000/broken.pdf'') 2
      = Some ''123e4567-e89b-42d3-a456-426614174000''"
    by code_simp
  have h6: "''123e4567-e89b-42d3-a456-426614174000'' \<noteq> []" by simp
  have h7: "db corrupt_pdf_world ''123e4567-e89b-42d3-a456-426614174000'' = Some corrupt_pdf_record"
    by (simp add: corrupt_pdf_world_def)
  have h8: "\<forall>c. fails sample_env c = None" by (simp add: sample_env_def)
  note t = extraction_failure_degrades[OF h1 h2 h3 h4 h5 h6 h7 h8]
  show ?thesis
    by (intro conjI) (rule h1 h2 h3 h4 h5 h6 h7 h8 t)+
qed

text \<open>
  C2. The identifier is recoverable from the key that the upload generates: splitting
  \<^verbatim>\<open>generateS3Key(filename, fileId)\<close> on the slash and taking the piece at index 2
  gives the identifier back, whatever the file name and the date (the name may itself
  contain slashes). Identifiers are those of \<^verbatim>\<open>uuidv4()\<close>, which contain no
  slash (no string of the identifier syntax does: \<open>is_uuid_no_slash\<close>).
\<close>

theorem id_recoverable_from_key:
  "CHR ''/'' \<notin> set fileId \<Longrightarrow>
   nth_opt (split_char CHR ''/'' (generateS3Key now filename fileId)) 2 = Some fileId"
  by (simp add: split_key numeral_2_eq_2)

theorem id_recoverable_from_key_witness:
  "CHR ''/'' \<notin> set ''123e4567-e89b-42d3-a456-426614174000''
   \<and> nth_opt (split_char CHR ''/''
        (generateS3Key
           \<lparr>year = 2024, month = 1, day = 15, hours = 10, minutes = 30, seconds = 0,
            millis = 0\<rparr>
           ''a/b c.txt'' ''123e4567-e89b-42d3-a456-426614174000'')) 2
     = Some ''123e4567-e89b-42d3-a456-426614174000''"
proof -
  have h: "CHR ''/'' \<notin> set ''123e4567-e89b-42d3-a456-426614174000''" by simp
  show ?thesis
    by (rule conjI[OF h id_recoverable_from_key[OF h]])
qed




text \<open>
  C4. The code at the failing input: user metadata that is present and does not parse
  makes \<^verbatim>\<open>JSON.parse\<close> throw inside the \<^verbatim>\<open>try\<close> block of the controller, and
  the \<^verbatim>\<open>catch\<close> block answers 500, not 400, without a call to either store. The
  upload route answers the same for every request the multipart parser lets through.
\<close>

theorem malformed_metadata_is_500:
  assumes "file_r req = Some f" and "body_userMetadata req = Some s" and "s \<noteq> []"
    and "JSON_parse e s = None"
  shows "uploadFile e a req w =
           (\<lparr>statusCode = 500, body = ErrorBody ''Internal server error during upload''\<rparr>, w)
         \<and> (uploadSingle req = Inr req \<longrightarrow>
              post_upload e a req w =
                (\<lparr>statusCode = 500,
                  body = ErrorBody ''Internal server error during upload''\<rparr>, w))"
proof -
  have c: "uploadFile e a req w =
           (\<lparr>statusCode = 500, body = ErrorBody ''Internal server error during upload''\<rparr>, w)"
    using assms by (simp add: uploadFile_def internal_error_def)
  then show ?thesis by (simp add: post_upload_passes)
qed

theorem malformed_metadata_is_500_witness:
  "file_r (sample_request\<lparr>body_userMetadata := Some ''{bad''\<rparr>) = Some sample_file
   \<and> body_userMetadata (sample_request\<lparr>body_userMetadata := Some ''{bad''\<rparr>) = Some ''{bad''
   \<and> ''{bad'' \<noteq> []
   \<and> JSON_parse sample_env ''{bad'' = None
   \<and> uploadSingle (sample_request\<lparr>body_userMetadata := Some ''{bad''\<rparr>)
       = Inr (sample_request\<lparr>body_userMetadata := Some ''{bad''\<rparr>)
   \<and> uploadFile sample_env sample_ambient
        (sample_request\<lparr>body_userMetadata := Some ''{bad''\<rparr>) empty_world =
        (\<lparr>statusCode = 500, body = ErrorBody ''Internal server error during upload''\<rparr>,
         empty_world)
   \<and> post_upload sample_env sample_ambient
        (sample_request\<lparr>body_userMetadata := Some ''{bad''\<rparr>) empty_world =
        (\<lparr>statusCode = 500, body = ErrorBody ''Internal server error during upload''\<rparr>,
         empty_world)"
proof -
  have h1: "file_r (sample_request\<lparr>body_userMetadata := Some ''{bad''\<rparr>) = Some sample_file"
    by (simp add: sample_request_def)
  have h2: "body_userMetadata (sample_request\<lparr>body_userMetadata := Some ''{bad''\<rparr>)
            = Some ''{bad''"
    by simp
  have h3: "''{bad'' \<noteq> []" by simp
  have h4: "JSON_parse sample_env ''{bad'' = None" by (simp add: sample_env_def)
  have h5: "uploadSingle (sample_request\<lparr>body_userMetadata := Some ''{bad''\<rparr>)
       = Inr (sample_request\<lparr>body_userMetadata := Some ''{bad''\<rparr>)"
    by (simp add: uploadSingle_def fileFilter_def allowedMimeTypes_def maxFileSize_def
        sample_request_def sample_file_def)
  note t = malformed_metadata_is_500[OF h1 h2 h3 h4, of sample_ambient empty_world]
  show ?thesis
    using h1 h2 h3 h4 h5 t by blast
qed

text \<open>
  C5. The code at the failing input: the controller never applies
  \<^verbatim>\<open>uploadSchema\<close>. Whatever object the user metadata parses to, an upload of an
  allowed type and size is answered with 201 when the stores answer, and the record
  holds the metadata as parsed; the upload route answers the same for every request
  the multipart parser lets through.
\<close>

theorem metadata_fields_not_checked:
  assumes "file_r req = Some f" and "body_userMetadata req = Some s" and "s \<noteq> []"
    and "JSON_parse e s = Some (JObject kvs)"
    and "validateFileType (mimetype f)" and "validateFileSize (size_f f) defaultMaxSize"
    and "\<forall>c. fails e c = None"
  shows "statusCode (fst (uploadFile e a req w)) = 201
         \<and> (\<exists>item. db (snd (uploadFile e a req w)) (uuid a) = Some item
                \<and> userMetadata item = JObject kvs)
         \<and> (uploadSingle req = Inr req \<longrightarrow>
              post_upload e a req w = uploadFile e a req w)"
proof -
  have ok: "(case body_userMetadata req of
               None \<Rightarrow> Some (JObject [])
             | Some s \<Rightarrow> if s = [] then Some (JObject []) else JSON_parse e s)
            = Some (JObject kvs)"
    using assms(2-4) by simp
  obtain uploadedBy where b: "author_or_anonymous (JObject kvs) = Some uploadedBy"
    by (cases "map_of (rev kvs) ''author''") simp_all
  note u = uploadFile_accepted[OF assms(1) ok assms(5,6) b, of a w]
  show ?thesis
    using u assms(7) by (simp add: Let_def post_upload_passes)
qed

theorem metadata_fields_not_checked_witness:
  "file_r (sample_request\<lparr>body_userMetadata := Some long_author_text\<rparr>) = Some sample_file
   \<and> body_userMetadata (sample_request\<lparr>body_userMetadata := Some long_author_text\<rparr>)
       = Some long_author_text
   \<and> long_author_text \<noteq> []
   \<and> JSON_parse long_author_env long_author_text
       = Some (JObject [(''author'', JString (replicate 256 (CHR ''a'')))])
   \<and> 255 < length (replicate 256 (CHR ''a''))
   \<and> validateFileType (mimetype sample_file)
   \<and> validateFileSize (size_f sample_file) defaultMaxSize
   \<and> (\<forall>c. fails long_author_env c = None)
   \<and> uploadSingle (sample_request\<lparr>body_userMetadata := Some long_author_text\<rparr>)
       = Inr (sample_request\<lparr>body_userMetadata := Some long_author_text\<rparr>)
   \<and> statusCode (fst (uploadFile long_author_env sample_ambient
         (sample_request\<lparr>body_userMetadata := Some long_author_text\<rparr>) empty_world)) = 201
   \<and> (\<exists>item. db (snd (uploadFile long_author_env sample_ambient
                   (sample_request\<lparr>body_userMetadata := Some long_author_text\<rparr>)
                   empty_world)) (uuid sample_ambient) = Some item
          \<and> userMetadata item = JObject [(''author'', JString (replicate 256 (CHR ''a'')))])
   \<and> post_upload long_author_env sample_ambient
        (sample_request\<lparr>body_userMetadata := Some long_author_text\<rparr>) empty_world
      = uploadFile long_author_env sample_ambient
        (sample_request\<lparr>body_userMetadata := Some long_author_text\<rparr>) empty_world"
proof -
  have h1: "file_r (sample_request\<lparr>body_userMetadata := Some long_author_text\<rparr>)
            = Some sample_file"
    by (simp add: sample_request_def)
  have h2: "body_userMetadata (sample_request\<lparr>body_userMetadata := Some long_author_text\<rparr>)
       = Some long_author_text"
    by simp
  have h3: "long_author_text \<noteq> []" by (simp add: long_author_text_def)
  have h4: "JSON_parse long_author_env long_author_text
       = Some (JObject [(''author'', JString (replicate 256 (CHR ''a'')))])"
    by (simp add: long_author_env_def)
  have h5: "validateFileType (mimetype sample_file)"
    by (simp add: validateFileType_def allowedTypes_def sample_file_def)
  have h6: "validateFileSize (size_f sample_file) defaultMaxSize"
    by (simp add: validateFileSize_def defaultMaxSize_def sample_file_def)
  have h7: "\<forall>c. fails long_author_env c = None"
    by (simp add: long_author_env_def sample_env_def)
  have h8: "255 < length (replicate 256 (CHR ''a''))" by simp
  have h9: "uploadSingle (sample_request\<lparr>body_userMetadata := Some long_author_text\<rparr>)
       = Inr (sample_request\<lparr>body_userMetadata := Some long_author_text\<rparr>)"
    by (simp add: uploadSingle_def fileFilter_def allowedMimeTypes_def maxFileSize_def
        sample_request_def sample_file_def)
  note t = metadata_fields_not_checked[OF h1 h2 h3 h4 h5 h6 h7, of sample_ambient empty_world]
  show ?thesis
    using h1 h2 h3 h4 h5 h6 h7 h8 h9 t by blast
qed

text \<open>
  C6, as amended. \<^verbatim>\<open>getMetadata\<close> tests the identifier against its own pattern:
  five groups of 8, 4, 4, 4 and 12 hexadecimal digits in either case, the third group
  starting with a version digit 1 to 5 and the fourth with a variant digit 8, 9, a or
  b. An identifier that does not match the pattern is answered with 400 and no call is
  sent to either store (the world, its list of calls included, is unchanged); an
  identifier that matches and has no record is looked up once and answered with 404.
  Every identifier of the pattern is in canonical form (\<open>is_uuid_canonical\<close>), but
  not every canonical identifier is of the pattern.
\<close>

theorem getRecord_malformed_or_missing:
  "(\<not> is_uuid fileId \<longrightarrow>
      getMetadata e fileId w =
        (\<lparr>statusCode = 400, body = ErrorBody ''Invalid file ID format''\<rparr>, w))
   \<and> (is_uuid fileId \<and> fails e (GetItem fileId) = None \<and> db w fileId = None \<longrightarrow>
      getMetadata e fileId w =
        (\<lparr>statusCode = 404, body = ErrorBody ''File not found''\<rparr>, sent (GetItem fileId) w))"
  by (simp add: getMetadata_def Dynamo_getMetadata_def sent_def Let_def)

theorem getRecord_malformed_or_missing_witness:
  "\<not> is_uuid ''invalid-id''
   \<and> getMetadata sample_env ''invalid-id'' empty_world =
        (\<lparr>statusCode = 400, body = ErrorBody ''Invalid file ID format''\<rparr>, empty_world)
   \<and> is_uuid ''123e4567-e89b-42d3-a456-426614174000''
   \<and> fails sample_env (GetItem ''123e4567-e89b-42d3-a456-426614174000'') = None
   \<and> db empty_world ''123e4567-e89b-42d3-a456-426614174000'' = None
   \<and> getMetadata sample_env ''123e4567-e89b-42d3-a456-426614174000'' empty_world =
        (\<lparr>statusCode = 404, body = ErrorBody ''File not found''\<rparr>,
         sent (GetItem ''123e4567-e89b-42d3-a456-426614174000'') empty_world)"
proof -
  have a: "\<not> is_uuid ''invalid-id''" by code_simp
  have b: "is_uuid ''123e4567-e89b-42d3-a456-426614174000''" by code_simp
  have c: "fails sample_env (GetItem ''123e4567-e89b-42d3-a456-426614174000'') = None"
    by (simp add: sample_env_def)
  have d: "db empty_world ''123e4567-e89b-42d3-a456-426614174000'' = None"
    by (simp add: empty_world_def)
  note t1 = getRecord_malformed_or_missing[where fileId = "''invalid-id''" and e = sample_env
      and w = empty_world, THEN conjunct1, THEN mp, OF a]
  note t2 = getRecord_malformed_or_missing[
      where fileId = "''123e4567-e89b-42d3-a456-426614174000''" and e = sample_env
      and w = empty_world, THEN conjunct2, THEN mp, OF conjI[OF b conjI[OF c d]]]
  show ?thesis
    by (intro conjI) (rule a b c d t1 t2)+
qed

text \<open>The claim as it was stated fails on identifiers in canonical form that are
  outside the pattern, such as the nil identifier and a version 7 identifier: no
  record exists, and the answer is 400, not 404.\<close>

theorem canonical_id_refused_counterexample:
  "canonical_uuid ''00000000-0000-0000-0000-000000000000''
   \<and> db empty_world ''00000000-0000-0000-0000-000000000000'' = None
   \<and> fails sample_env (GetItem ''00000000-0000-0000-0000-000000000000'') = None
   \<and> getMetadata sample_env ''00000000-0000-0000-0000-000000000000'' empty_world =
        (\<lparr>statusCode = 400, body = ErrorBody ''Invalid file ID format''\<rparr>, empty_world)
   \<and> canonical_uuid ''018f4e5a-7b3c-7def-8abc-0123456789ab''
   \<and> db empty_world ''018f4e5a-7b3c-7def-8abc-0123456789ab'' = None
   \<and> fails sample_env (GetItem ''018f4e5a-7b3c-7def-8abc-0123456789ab'') = None
   \<and> getMetadata sample_env ''018f4e5a-7b3c-7def-8abc-0123456789ab'' empty_world =
        (\<lparr>statusCode = 400, body = ErrorBody ''Invalid file ID format''\<rparr>, empty_world)"
proof -
  have a1: "canonical_uuid ''00000000-0000-0000-0000-000000000000''" by code_simp
  have a2: "\<not> is_uuid ''00000000-0000-0000-0000-000000000000''" by code_simp
  have a3: "db empty_world ''00000000-0000-0000-0000-000000000000'' = None"
    by (simp add: empty_world_def)
  have a4: "fails sample_env (GetItem ''00000000-0000-0000-0000-000000000000'') = None"
    by (simp add: sample_env_def)
  have a5: "getMetadata sample_env ''00000000-0000-0000-0000-000000000000'' empty_world =
        (\<lparr>statusCode = 400, body = ErrorBody ''Invalid file ID format''\<rparr>, empty_world)"
    by (simp add: getMetadata_def a2)
  have b1: "canonical_uuid ''018f4e5a-7b3c-7def-8abc-0123456789ab''" by code_simp
  have b2: "\<not> is_uuid ''018f4e5a-7b3c-7def-8abc-0123456789ab''" by code_simp
  have b3: "db empty_world ''018f4e5a-7b3c-7def-8abc-0123456789ab'' = None"
    by (simp add: empty_world_def)
  have b4: "fails sample_env (GetItem ''018f4e5a-7b3c-7def-8abc-0123456789ab'') = None"
    by (simp add: sample_env_def)
  have b5: "getMetadata sample_env ''018f4e5a-7b3c-7def-8abc-0123456789ab'' empty_world =
        (\<lparr>statusCode = 400, body = ErrorBody ''Invalid file ID format''\<rparr>, empty_world)"
    by (simp add: getMetadata_def b2)
  show ?thesis
    by (intro conjI) (rule a1 a3 a4 a5 b1 b3 b4 b5)+
qed

text \<open>
  C7. An upload whose declared type is outside the allow-list, or whose size exceeds
  50 MiB, is answered with 400 by the upload route, and the world is unchanged: no
  object is put, no item is written, no call is sent. The multipart parser rejects
  such a file before the controller runs; the controller on its own also leaves the
  world unchanged for such a file (and answers 400 unless the user metadata fails to
  parse: \<open>uploadFile_invalid_status\<close>).
\<close>

theorem invalid_upload_rejected:
  assumes "file_r req = Some f"
    and "mimetype f \<notin> set allowedTypes \<or> size_f f > 50 * 1024 * 1024"
  shows "statusCode (fst (post_upload e a req w)) = 400
         \<and> snd (post_upload e a req w) = w
         \<and> snd (uploadFile e a req w) = w"
  using post_upload_invalid[OF assms] uploadFile_invalid_no_write[OF assms] by simp

theorem invalid_upload_rejected_witness:
  "file_r (sample_request\<lparr>file_r := Some exe_file\<rparr>) = Some exe_file
   \<and> mimetype exe_file \<notin> set allowedTypes
   \<and> statusCode (fst (post_upload sample_env sample_ambient
         (sample_request\<lparr>file_r := Some exe_file\<rparr>) empty_world)) = 400
   \<and> snd (post_upload sample_env sample_ambient
         (sample_request\<lparr>file_r := Some exe_file\<rparr>) empty_world) = empty_world
   \<and> snd (uploadFile sample_env sample_ambient
         (sample_request\<lparr>file_r := Some exe_file\<rparr>) empty_world) = empty_world
   \<and> file_r (sample_request\<lparr>file_r := Some big_file\<rparr>) = Some big_file
   \<and> size_f big_file > 50 * 1024 * 1024
   \<and> statusCode (fst (post_upload sample_env sample_ambient
         (sample_request\<lparr>file_r := Some big_file\<rparr>) empty_world)) = 400
   \<and> snd (post_upload sample_env sample_ambient
         (sample_request\<lparr>file_r := Some big_file\<rparr>) empty_world) = empty_world
   \<and> snd (uploadFile sample_env sample_ambient
         (sample_request\<lparr>file_r := Some big_file\<rparr>) empty_world) = empty_world"
proof -
  have a1: "file_r (sample_request\<lparr>file_r := Some exe_file\<rparr>) = Some exe_file" by simp
  have a2: "mimetype exe_file \<notin> set allowedTypes"
    by (simp add: exe_file_def allowedTypes_def)
  have b1: "file_r (sample_request\<lparr>file_r := Some big_file\<rparr>) = Some big_file" by simp
  have b2: "size_f big_file > 50 * 1024 * 1024" by (simp add: big_file_def)
  note t1 = invalid_upload_rejected[OF a1 disjI1[OF a2],
      of sample_env sample_ambient empty_world]
  note t2 = invalid_upload_rejected[OF b1 disjI2[OF b2],
      of sample_env sample_ambient empty_world]
  show ?thesis
    using a1 a2 b1 b2 t1 t2 by blast
qed

text \<open>
  C8. The steps of an upload happen in one order, each only after the one before has
  succeeded. The object is put first; if that fails nothing is stored. The item is
  written, with status \<^verbatim>\<open>uploaded\<close>, only after the object is in the bucket: when
  writing the item fails the object is already stored and the table is unchanged. The
  status is updated to \<^verbatim>\<open>processing\<close> only after the item is in the table: when
  the update fails the object and the item with status \<^verbatim>\<open>uploaded\<close> are both
  stored. A successful upload (201) sent exactly these three calls, all of which
  succeeded: the blob write turns the world into one that holds the object, the record
  write is applied to that world and adds the item, and the status update is applied
  to the world that holds both.
\<close>

theorem ingest_steps_in_order:
  assumes "file_r req = Some f"
  shows "\<exists>item obj cs.
           trace (snd (uploadFile e a req w)) = trace w @ cs
           \<and> id_m item = uuid a \<and> status item = UPLOADED
           \<and> Body obj = buffer f \<and> ContentType obj = mimetype f
           \<and> (let key = generateS3Key (t_key a) (originalname f) (uuid a);
                    c1 = PutObject (bucketName e) key;
                    c2 = PutItem item;
                    c3 = UpdateItem (uuid a)
                          \<lparr>upd_extractedMetadata = None, upd_status = Some PROCESSING\<rparr>;
                    w' = snd (uploadFile e a req w);
                    stored = (s3 w)((bucketName e, key) \<mapsto> obj)
                in ((cs = [] \<and> s3 w' = s3 w \<and> db w' = db w)
                    \<or> (cs = [c1] \<and> s3 w' = s3 w \<and> db w' = db w)
                    \<or> (cs = [c1, c2] \<and> fails e c1 = None
                        \<and> s3 w' = stored \<and> db w' = db w)
                    \<or> (cs = [c1, c2, c3] \<and> fails e c1 = None \<and> fails e c2 = None
                        \<and> s3 w' = stored
                        \<and> db w' = (db w)(uuid a \<mapsto>
                              (if fails e c3 = None then item\<lparr>status := PROCESSING\<rparr>
                               else item))))
                   \<and> (statusCode (fst (uploadFile e a req w)) = 201 \<longrightarrow>
                        cs = [c1, c2, c3] \<and> fails e c1 = None \<and> fails e c2 = None
                        \<and> fails e c3 = None
                        \<and> s3 w' (bucketName e, key) = Some obj
                        \<and> db w' (uuid a) = Some (item\<lparr>status := PROCESSING\<rparr>)
                        \<and> (\<exists>w1 w2.
                              S3_uploadFile e key (buffer f) (mimetype f) (Metadata obj) w
                                = (Inr (key, bucketName e), w1)
                              \<and> s3 w1 (bucketName e, key) = Some obj \<and> db w1 = db w
                              \<and> Dynamo_saveMetadata e (t_save a) item w1 = (Inr (), w2)
                              \<and> s3 w2 = s3 w1 \<and> db w2 (uuid a) = Some item
                              \<and> updateFileStatus e (uuid a) PROCESSING w2 = (Inr (), w'))))"
proof (cases "\<exists>um uploadedBy.
            (case body_userMetadata req of
               None \<Rightarrow> Some (JObject [])
             | Some s \<Rightarrow> if s = [] then Some (JObject []) else JSON_parse e s) = Some um
            \<and> validateFileType (mimetype f)
            \<and> validateFileSize (size_f f) defaultMaxSize
            \<and> author_or_anonymous um = Some uploadedBy")
  case False
  from uploadFile_rejected[OF assms False, of a w]
  have r: "snd (uploadFile e a req w) = w" "statusCode (fst (uploadFile e a req w)) \<noteq> 201"
    by simp_all
  let ?item = "\<lparr>id_m = uuid a, originalName = [], fileName = [], mimeType = [], size_m = 0,
      s3Key = [], s3Bucket = [], uploadedAt = [], userMetadata = JNull,
      extractedMetadata = None, status = UPLOADED\<rparr>"
  let ?obj = "\<lparr>Body = buffer f, ContentType = mimetype f, Metadata = []\<rparr>"
  show ?thesis
    by (rule exI[where x = ?item], rule exI[where x = ?obj], rule exI[where x = "[]"])
       (simp add: r Let_def)
next
  case True
  then obtain um uploadedBy where
    ok: "(case body_userMetadata req of
               None \<Rightarrow> Some (JObject [])
             | Some s \<Rightarrow> if s = [] then Some (JObject []) else JSON_parse e s) = Some um"
      "validateFileType (mimetype f)" "validateFileSize (size_f f) defaultMaxSize"
      "author_or_anonymous um = Some uploadedBy"
    by blast
  let ?key = "generateS3Key (t_key a) (originalname f) (uuid a)"
  let ?item = "\<lparr>id_m = uuid a, originalName = originalname f, fileName = originalname f,
                  mimeType = mimetype f, size_m = size_f f, s3Key = ?key,
                  s3Bucket = bucketName e, uploadedAt = toISOString (t_record a),
                  userMetadata = um, extractedMetadata = None, status = UPLOADED\<rparr>"
  let ?obj = "\<lparr>Body = buffer f, ContentType = mimetype f,
                 Metadata = [(''fileId'', JString (uuid a)),
                             (''originalName'', JString (originalname f)),
                             (''uploadedBy'', uploadedBy)]\<rparr>"
  let ?c1 = "PutObject (bucketName e) ?key"
  let ?c2 = "PutItem ?item"
  let ?c3 = "UpdateItem (uuid a) \<lparr>upd_extractedMetadata = None, upd_status = Some PROCESSING\<rparr>"
  let ?stored = "(s3 w)((bucketName e, ?key) \<mapsto> ?obj)"
  let ?w' = "snd (uploadFile e a req w)"
  note u = uploadFile_accepted[OF assms ok, of a w]
  consider (f1) "fails e ?c1 \<noteq> None"
    | (f2) "fails e ?c1 = None" "fails e ?c2 \<noteq> None"
    | (f3) "fails e ?c1 = None" "fails e ?c2 = None" "fails e ?c3 \<noteq> None"
    | (s) "fails e ?c1 = None" "fails e ?c2 = None" "fails e ?c3 = None"
    by blast
  then show ?thesis
  proof cases
    case f1
    then have t: "trace ?w' = trace w @ [?c1]"
      and st: "statusCode (fst (uploadFile e a req w)) = 500"
      and x: "s3 ?w' = s3 w" "db ?w' = db w"
      using u by (simp_all add: Let_def internal_error_def)
    show ?thesis
      by (intro exI[where x = ?item] exI[where x = ?obj] exI[where x = "[?c1]"])
         (simp add: Let_def t st x)
  next
    case f2
    then have t: "trace ?w' = trace w @ [?c1, ?c2]"
      and st: "statusCode (fst (uploadFile e a req w)) = 500"
      and x: "s3 ?w' = ?stored" "db ?w' = db w"
      using u by (simp_all add: Let_def internal_error_def)
    show ?thesis
      by (intro exI[where x = ?item] exI[where x = ?obj] exI[where x = "[?c1, ?c2]"])
         (simp add: Let_def t st x f2)
  next
    case f3
    then have t: "trace ?w' = trace w @ [?c1, ?c2, ?c3]"
      and st: "statusCode (fst (uploadFile e a req w)) = 500"
      and x: "s3 ?w' = ?stored" "db ?w' = (db w)(uuid a \<mapsto> ?item)"
      using u by (simp_all add: Let_def internal_error_def)
    show ?thesis
      by (intro exI[where x = ?item] exI[where x = ?obj] exI[where x = "[?c1, ?c2, ?c3]"])
         (simp add: Let_def t st x f3)
  next
    case s
    then have t: "trace ?w' = trace w @ [?c1, ?c2, ?c3]"
      and x: "s3 ?w' = ?stored" "db ?w' = (db w)(uuid a \<mapsto> ?item\<lparr>status := PROCESSING\<rparr>)"
      and fw: "?w' = w\<lparr>s3 := ?stored, db := (db w)(uuid a \<mapsto> ?item\<lparr>status := PROCESSING\<rparr>),
              trace := trace w @ [?c1, ?c2, ?c3]\<rparr>"
      using u by (simp_all add: Let_def)
    let ?w1 = "w\<lparr>s3 := ?stored, trace := trace w @ [?c1]\<rparr>"
    let ?w2 = "w\<lparr>s3 := ?stored, db := (db w)(uuid a \<mapsto> ?item), trace := trace w @ [?c1, ?c2]\<rparr>"
    have s1: "S3_uploadFile e ?key (buffer f) (mimetype f)
                [(''fileId'', JString (uuid a)),
                 (''originalName'', JString (originalname f)),
                 (''uploadedBy'', uploadedBy)] w
                = (Inr (?key, bucketName e), ?w1)"
      using s(1) by (simp add: S3_uploadFile_def sent_def Let_def)
    have s2: "Dynamo_saveMetadata e (t_save a) ?item ?w1 = (Inr (), ?w2)"
      using s(2) by (simp add: Dynamo_saveMetadata_def sent_def Let_def toISOString_nonempty)
    have s3: "updateFileStatus e (uuid a) PROCESSING ?w2 = (Inr (), ?w')"
      unfolding fw using s(3)
      by (simp add: updateFileStatus_def updateMetadata_def sent_def Let_def apply_updates_def)
    have steps: "\<exists>w1 w2.
        S3_uploadFile e ?key (buffer f) (mimetype f) (Metadata ?obj) w
          = (Inr (?key, bucketName e), w1)
        \<and> s3 w1 (bucketName e, ?key) = Some ?obj \<and> db w1 = db w
        \<and> Dynamo_saveMetadata e (t_save a) ?item w1 = (Inr (), w2)
        \<and> s3 w2 = s3 w1 \<and> db w2 (uuid a) = Some ?item
        \<and> updateFileStatus e (uuid a) PROCESSING w2 = (Inr (), ?w')"
      by (rule exI[where x = ?w1], rule exI[where x = ?w2]) (simp add: s1 s2 s3)
    show ?thesis
      apply (intro exI[where x = ?item] exI[where x = ?obj] exI[where x = "[?c1, ?c2, ?c3]"])
      using steps
      apply (simp add: Let_def t x s)
      done
  qed
qed

theorem ingest_steps_in_order_witness:
  "file_r sample_request = Some sample_file
   \<and> statusCode (fst (uploadFile sample_env sample_ambient sample_request empty_world)) = 201
   \<and> (\<exists>item obj cs.
           trace (snd (uploadFile sample_env sample_ambient sample_request empty_world))
             = trace empty_world @ cs
           \<and> id_m item = uuid sample_ambient \<and> status item = UPLOADED
           \<and> Body obj = buffer sample_file \<and> ContentType obj = mimetype sample_file
           \<and> (let key = generateS3Key (t_key sample_ambient) (originalname sample_file)
                          (uuid sample_ambient);
                    c1 = PutObject (bucketName sample_env) key;
                    c2 = PutItem item;
                    c3 = UpdateItem (uuid sample_ambient)
                          \<lparr>upd_extractedMetadata = None, upd_status = Some PROCESSING\<rparr>;
                    w' = snd (uploadFile sample_env sample_ambient sample_request empty_world);
                    stored = (s3 empty_world)((bucketName sample_env, key) \<mapsto> obj)
                in ((cs = [] \<and> s3 w' = s3 empty_world \<and> db w' = db empty_world)
                    \<or> (cs = [c1] \<and> s3 w' = s3 empty_world \<and> db w' = db empty_world)
                    \<or> (cs = [c1, c2] \<and> fails sample_env c1 = None
                        \<and> s3 w' = stored \<and> db w' = db empty_world)
                    \<or> (cs = [c1, c2, c3] \<and> fails sample_env c1 = None
                        \<and> fails sample_env c2 = None
                        \<and> s3 w' = stored
                        \<and> db w' = (db empty_world)(uuid sample_ambient \<mapsto>
                              (if fails sample_env c3 = None
                               then item\<lparr>status := PROCESSING\<rparr>
                               else item))))
                   \<and> (statusCode (fst (uploadFile sample_env sample_ambient sample_request
                                         empty_world)) = 201 \<longrightarrow>
                        cs = [c1, c2, c3] \<and> fails sample_env c1 = None
                        \<and> fails sample_env c2 = None
                        \<and> fails sample_env c3 = None
                        \<and> s3 w' (bucketName sample_env, key) = Some obj
                        \<and> db w' (uuid sample_ambient) = Some (item\<lparr>status := PROCESSING\<rparr>)
                        \<and> (\<exists>w1 w2.
                              S3_uploadFile sample_env key (buffer sample_file)
                                  (mimetype sample_file) (Metadata obj) empty_world
                                = (Inr (key, bucketName sample_env), w1)
                              \<and> s3 w1 (bucketName sample_env, key) = Some obj
                              \<and> db w1 = db empty_world
                              \<and> Dynamo_saveMetadata sample_env (t_save sample_ambient) item w1
                                  = (Inr (), w2)
                              \<and> s3 w2 = s3 w1 \<and> db w2 (uuid sample_ambient) = Some item
                              \<and> updateFileStatus sample_env (uuid sample_ambient) PROCESSING w2
                                  = (Inr (), w')))))"
proof -
  have h: "file_r sample_request = Some sample_file" by (simp add: sample_request_def)
  show ?thesis
    by (intro conjI)
       (rule h sample_upload_201
          ingest_steps_in_order[OF h, of sample_env sample_ambient empty_world])+
qed

text \<open>
  C9. The code at the failing input: \<^verbatim>\<open>uploadFile\<close> hands the original file name
  to \<^verbatim>\<open>generateS3Key\<close> as it was sent and never calls \<^verbatim>\<open>sanitizeFilename\<close>.
  The key of every uploaded file is
  \<^verbatim>\<open>uploads/{ISO-date}/{id}/{original filename}\<close>; the object is stored under that
  key and the record holds the same key.
\<close>

theorem key_holds_original_filename:
  assumes "file_r req = Some f" and "statusCode (fst (uploadFile e a req w)) = 201"
  shows "let key = ''uploads/'' @ iso_date (t_key a) @ ''/'' @ uuid a @ ''/'' @ originalname f;
             w' = snd (uploadFile e a req w)
         in (\<exists>cs. trace w' = trace w @ PutObject (bucketName e) key # cs)
            \<and> (\<exists>obj. s3 w' (bucketName e, key) = Some obj \<and> Body obj = buffer f)
            \<and> (\<exists>item. db w' (uuid a) = Some item \<and> s3Key item = key)"
proof -
  from uploadFile_201_accepted[OF assms] obtain um uploadedBy where
    ok: "(case body_userMetadata req of
               None \<Rightarrow> Some (JObject [])
             | Some s \<Rightarrow> if s = [] then Some (JObject []) else JSON_parse e s) = Some um"
      "validateFileType (mimetype f)" "validateFileSize (size_f f) defaultMaxSize"
      "author_or_anonymous um = Some uploadedBy"
    by blast
  note u = uploadFile_accepted[OF assms(1) ok, of a w]
  let ?key = "generateS3Key (t_key a) (originalname f) (uuid a)"
  let ?item = "\<lparr>id_m = uuid a, originalName = originalname f, fileName = originalname f,
                  mimeType = mimetype f, size_m = size_f f, s3Key = ?key,
                  s3Bucket = bucketName e, uploadedAt = toISOString (t_record a),
                  userMetadata = um, extractedMetadata = None, status = UPLOADED\<rparr>"
  let ?c1 = "PutObject (bucketName e) ?key"
  let ?c2 = "PutItem ?item"
  let ?c3 = "UpdateItem (uuid a) \<lparr>upd_extractedMetadata = None, upd_status = Some PROCESSING\<rparr>"
  have n: "fails e ?c1 = None \<and> fails e ?c2 = None \<and> fails e ?c3 = None"
  proof (rule ccontr)
    assume "\<not> ?thesis"
    then have "statusCode (fst (uploadFile e a req w)) = 500"
      using u by (auto simp: Let_def internal_error_def)
    with assms(2) show False by simp
  qed
  have t: "trace (snd (uploadFile e a req w)) = trace w @ [?c1, ?c2, ?c3]"
    and s: "s3 (snd (uploadFile e a req w)) (bucketName e, ?key) =
             Some \<lparr>Body = buffer f, ContentType = mimetype f,
                 Metadata = [(''fileId'', JString (uuid a)),
                             (''originalName'', JString (originalname f)),
                             (''uploadedBy'', uploadedBy)]\<rparr>"
    and d: "db (snd (uploadFile e a req w)) (uuid a) = Some (?item\<lparr>status := PROCESSING\<rparr>)"
    using u n by (simp_all add: Let_def)
  show ?thesis
    unfolding Let_def generateS3Key_eq[symmetric]
    by (simp add: t s d)
qed

theorem key_holds_original_filename_witness:
  "file_r sample_request = Some sample_file
   \<and> statusCode (fst (uploadFile sample_env sample_ambient sample_request empty_world)) = 201
   \<and> (let key = ''uploads/'' @ iso_date (t_key sample_ambient) @ ''/'' @ uuid sample_ambient
                 @ ''/'' @ originalname sample_file;
           w' = snd (uploadFile sample_env sample_ambient sample_request empty_world)
       in (\<exists>cs. trace w' = trace empty_world @ PutObject (bucketName sample_env) key # cs)
          \<and> (\<exists>obj. s3 w' (bucketName sample_env, key) = Some obj
                 \<and> Body obj = buffer sample_file)
          \<and> (\<exists>item. db w' (uuid sample_ambient) = Some item \<and> s3Key item = key))"
proof -
  have h: "file_r sample_request = Some sample_file" by (simp add: sample_request_def)
  show ?thesis
    by (intro conjI)
       (rule h sample_upload_201
          key_holds_original_filename[OF h sample_upload_201])+
qed

text \<open>For a file name with a space the key ends with the name as sent, which
  differs from the sanitized name and holds a character the sanitizer does not
  permit.\<close>

theorem key_not_sanitized_example:
  "hd (trace (snd (uploadFile sample_env sample_ambient sample_request empty_world)))
     = PutObject ''upload-test-bucket''
         ''uploads/2024-01-15/123e4567-e89b-42d3-a456-426614174000/my file.txt''
   \<and> originalname sample_file = ''my file.txt''
   \<and> sanitizeFilename ''my file.txt'' = ''my_file.txt''
   \<and> last (split_char CHR ''/''
         ''uploads/2024-01-15/123e4567-e89b-42d3-a456-426614174000/my file.txt'')
       = ''my file.txt''
   \<and> \<not> safe_char (CHR '' '')"
proof -
  have k: "generateS3Key sample_date ''my file.txt'' ''123e4567-e89b-42d3-a456-426614174000''
           = ''uploads/2024-01-15/123e4567-e89b-42d3-a456-426614174000/my file.txt''"
    by code_simp
  have u: "hd (trace (snd (uploadFile sample_env sample_ambient sample_request empty_world)))
     = PutObject ''upload-test-bucket''
         (generateS3Key sample_date ''my file.txt'' ''123e4567-e89b-42d3-a456-426614174000'')"
    apply (subst uploadFile_accepted[where f = sample_file and um = "JObject []"
          and uploadedBy = "JString ''anonymous''"])
         apply (simp add: sample_request_def)
        apply (simp add: sample_request_def)
       apply (simp add: validateFileType_def allowedTypes_def sample_file_def)
      apply (simp add: validateFileSize_def defaultMaxSize_def sample_file_def)
     apply simp
    apply (simp add: Let_def sample_env_def sample_ambient_def sample_file_def empty_world_def)
    done
  have s: "sanitizeFilename ''my file.txt'' = ''my_file.txt''" by code_simp
  have l: "last (split_char CHR ''/''
         ''uploads/2024-01-15/123e4567-e89b-42d3-a456-426614174000/my file.txt'')
       = ''my file.txt''" by code_simp
  have c: "\<not> safe_char (CHR '' '')" by code_simp
  have o: "originalname sample_file = ''my file.txt''" by (simp add: sample_file_def)
  show ?thesis
    unfolding u k by (intro conjI) (rule refl o s l c)+
qed

text \<open>
  C10. \<^verbatim>\<open>deleteFile\<close> and \<^verbatim>\<open>getDownloadUrl\<close> do not test the syntax of the
  identifier: for an identifier that does not match it and names no record, each
  sends the lookup as its first and only call and answers 404, where
  \<^verbatim>\<open>getMetadata\<close> answers 400 without any call.
\<close>

theorem delete_download_skip_validation:
  assumes "\<not> is_uuid fileId" and "db w fileId = None" and "fails e (GetItem fileId) = None"
  shows "deleteFile e fileId w =
           (\<lparr>statusCode = 404, body = ErrorBody ''File not found''\<rparr>, sent (GetItem fileId) w)
         \<and> getDownloadUrl e fileId w =
           (\<lparr>statusCode = 404, body = ErrorBody ''File not found''\<rparr>, sent (GetItem fileId) w)
         \<and> getMetadata e fileId w =
           (\<lparr>statusCode = 400, body = ErrorBody ''Invalid file ID format''\<rparr>, w)"
  using assms
  by (simp add: deleteFile_def getDownloadUrl_def getMetadata_def Dynamo_getMetadata_def
      sent_def Let_def)

theorem delete_download_skip_validation_witness:
  "\<not> is_uuid ''invalid-id'' \<and> db empty_world ''invalid-id'' = None
   \<and> fails sample_env (GetItem ''invalid-id'') = None
   \<and> deleteFile sample_env ''invalid-id'' empty_world =
        (\<lparr>statusCode = 404, body = ErrorBody ''File not found''\<rparr>,
         sent (GetItem ''invalid-id'') empty_world)
   \<and> getDownloadUrl sample_env ''invalid-id'' empty_world =
        (\<lparr>statusCode = 404, body = ErrorBody ''File not found''\<rparr>,
         sent (GetItem ''invalid-id'') empty_world)
   \<and> getMetadata sample_env ''invalid-id'' empty_world =
        (\<lparr>statusCode = 400, body = ErrorBody ''Invalid file ID format''\<rparr>, empty_world)"
proof -
  have a: "\<not> is_uuid ''invalid-id''" by code_simp
  have b: "db empty_world ''invalid-id'' = None" by (simp add: empty_world_def)
  have c: "fails sample_env (GetItem ''invalid-id'') = None" by (simp add: sample_env_def)
  show ?thesis
    using a b c delete_download_skip_validation[OF a b c] by blast
qed

end
